theory Spec2Isabelle
  imports Main "HOL-Library.Word"
begin

section \<open>Strings\<close>

text \<open>
  The text handled by the ingestion and generation code (labels, answers, prompts) is
  modelled as \<^typ>\<open>string\<close>: a list of 8-bit characters, read as the code points
  U+0000 to U+00FF. On that range Python's \<^verbatim>\<open>str.lower\<close>, \<^verbatim>\<open>str.isalnum\<close> and
  the whitespace set of \<^verbatim>\<open>str.strip\<close> act character by character, and the three
  functions below are their tables. Text with code points above U+00FF is outside these
  definitions; the page content of the PDF writer, where such code points matter, has
  its own type further down.
\<close>

definition py_isalnum :: "char \<Rightarrow> bool" where
  "py_isalnum c = (let n = (of_char c :: nat) in
     (48 \<le> n \<and> n \<le> 57) \<or> (65 \<le> n \<and> n \<le> 90) \<or> (97 \<le> n \<and> n \<le> 122) \<or>
     n = 170 \<or> n = 178 \<or> n = 179 \<or> n = 181 \<or> n = 185 \<or> n = 186 \<or>
     n = 188 \<or> n = 189 \<or> n = 190 \<or>
     (192 \<le> n \<and> n \<le> 214) \<or> (216 \<le> n \<and> n \<le> 246) \<or> (248 \<le> n \<and> n \<le> 255))"

definition py_lower_char :: "char \<Rightarrow> char" where
  "py_lower_char c = (let n = (of_char c :: nat) in
     if (65 \<le> n \<and> n \<le> 90) \<or> (192 \<le> n \<and> n \<le> 214) \<or> (216 \<le> n \<and> n \<le> 222)
     then char_of (n + 32) else c)"

definition py_isspace :: "char \<Rightarrow> bool" where
  "py_isspace c = (let n = (of_char c :: nat) in
     (9 \<le> n \<and> n \<le> 13) \<or> (28 \<le> n \<and> n \<le> 32) \<or> n = 133 \<or> n = 160)"

definition lower :: "string \<Rightarrow> string" where
  "lower s = map py_lower_char s"

definition strip :: "string \<Rightarrow> string" where
  "strip s = rev (dropWhile py_isspace (rev (dropWhile py_isspace s)))"

section \<open>Key normalisation\<close>

text \<open>
  \<^verbatim>\<open>normalize_key(s)\<close> is \<^verbatim>\<open>''.join(ch for ch in s.lower() if ch.isalnum())\<close>.
\<close>

definition normalize_key :: "string \<Rightarrow> string" where
  "normalize_key s = filter py_isalnum (lower s)"

text \<open>
  The dict \<^verbatim>\<open>predefined_keys\<close>, in the order of the source. The keys are distinct, so
  the association list and the dict have the same lookups.
\<close>

definition predefined_keys_items :: "(string \<times> string) list" where
  "predefined_keys_items =
    [(''companyname'', ''company_name''),
     (''industry'', ''industry''),
     (''overview'', ''overview''),
     (''governance'', ''governance''),
     (''ethics'', ''ethics''),
     (''businessmodel'', ''business_model''),
     (''strategy'', ''strategy''),
     (''stakeholderengagement'', ''stakeholder_engagement''),
     (''materiality'', ''materiality''),
     (''environmentalperformance'', ''environmental_performance''),
     (''environmentaltargets'', ''environmental_targets''),
     (''socialperformance'', ''social_performance''),
     (''communityengagement'', ''community_engagement''),
     (''laborpractices'', ''labor_practices''),
     (''humanrights'', ''human_rights''),
     (''supplychain'', ''supply_chain''),
     (''supplierevaluation'', ''supplier_evaluation''),
     (''financialsustainability'', ''financial_sustainability''),
     (''reportingframeworks'', ''reporting_frameworks''),
     (''dataassurance'', ''data_assurance''),
     (''kpi'', ''kpi''),
     (''futuregoals'', ''future_goals''),
     (''innovation'', ''innovation''),
     (''riskmanagement'', ''risk_management'')]"

definition predefined_keys :: "string \<rightharpoonup> string" where
  "predefined_keys = map_of predefined_keys_items"

section \<open>The questionnaire\<close>

text \<open>The global list \<^verbatim>\<open>questions\<close> of pairs (key, question text).\<close>

definition questions :: "(string \<times> string) list" where
  "questions =
    [(''company_name'', ''What is the name of your company?''),
     (''industry'', ''What industry does your company operate in?''),
     (''overview'', ''Briefly describe your company's main products or services and the regions/countries where you operate.''),
     (''governance'', ''Describe your company's governance structure, including board composition and sustainability oversight.''),
     (''ethics'', ''What policies and practices are in place to ensure ethical behavior and prevent corruption?''),
     (''business_model'', ''Describe your business model and how it integrates sustainability considerations.''),
     (''strategy'', ''What is your company's overall sustainability strategy and long-term vision? How does sustainability factor into strategic decision-making?''),
     (''stakeholder_engagement'', ''Who are the key stakeholders your company engages with (e.g., employees, customers, suppliers, community), and how are they involved in your sustainability initiatives?''),
     (''materiality'', ''Describe the materiality assessment process used to identify key sustainability issues for your company.''),
     (''environmental_performance'', ''Detail your company's environmental performance, including greenhouse gas emissions, energy consumption, water usage, waste management, and resource efficiency.''),
     (''environmental_targets'', ''What environmental targets or goals has your company set, and how are these measured?''),
     (''social_performance'', ''Describe your company's social policies and practices, including employee well-being, diversity, and inclusion.''),
     (''community_engagement'', ''How does your company contribute to and engage with the local communities in which it operates?''),
     (''labor_practices'', ''Outline your company's approach to labor practices, including workplace safety, training, and development.''),
     (''human_rights'', ''How does your company ensure compliance with human rights standards and prevent human rights abuses in your operations and supply chain?''),
     (''supply_chain'', ''Describe how your company assesses and manages sustainability risks in its supply chain.''),
     (''supplier_evaluation'', ''What criteria do you use to evaluate the sustainability performance of your suppliers?''),
     (''financial_sustainability'', ''What financial risks and opportunities related to sustainability does your company face, and how are these integrated into your financial planning?''),
     (''reporting_frameworks'', ''Which sustainability reporting frameworks or standards does your company currently use or intend to use?''),
     (''data_assurance'', ''How is the sustainability data collected, verified, and assured (e.g., through internal audits or external assurance)?''),
     (''kpi'', ''What key performance indicators (KPIs) do you monitor to track your sustainability performance?''),
     (''future_goals'', ''What are your company's sustainability goals for the next 5-10 years, and what strategies are in place to achieve them?''),
     (''innovation'', ''Describe any innovative initiatives or technologies your company is implementing to improve sustainability performance.''),
     (''risk_management'', ''How does your company manage and mitigate sustainability-related risks, including those associated with climate change?'')]"

section \<open>Spreadsheet ingestion\<close>

text \<open>
  A cell of the frame returned by \<^verbatim>\<open>pd.read_excel\<close>, as \<^verbatim>\<open>iterrows\<close> hands it
  to the loop: a text, an integer, or the float NaN that pandas puts where the sheet has
  no value. \<open>py_str\<close> is Python's \<^verbatim>\<open>str()\<close> on these. Cells holding other floats
  or dates are not represented.
\<close>

datatype cell = CStr string | CInt int | CNaN

definition digit_char :: "nat \<Rightarrow> char" where
  "digit_char d = char_of (48 + d)"

function decimal :: "nat \<Rightarrow> string" where
  "decimal n = (if n < 10 then [digit_char n] else decimal (n div 10) @ [digit_char (n mod 10)])"
  by pat_completeness auto
termination
  by (relation "measure (\<lambda>n. n)") auto

declare decimal.simps [simp del]

fun py_str :: "cell \<Rightarrow> string" where
  "py_str (CStr s) = s"
| "py_str (CInt i) = (if i < 0 then CHR ''-'' # decimal (nat (- i)) else decimal (nat i))"
| "py_str CNaN = ''nan''"

text \<open>
  A \<^verbatim>\<open>DataFrame\<close>: the column labels and the rows, each row a list of cells in column
  order. In a frame every row has one cell per column, and \<^verbatim>\<open>read_excel\<close> makes the
  labels of repeated header cells distinct; \<open>wf_frame\<close> states both.
\<close>

record dataframe =
  columns :: "cell list"
  rows :: "cell list list"

definition wf_frame :: "dataframe \<Rightarrow> bool" where
  "wf_frame df \<longleftrightarrow>
     distinct (columns df) \<and> list_all (\<lambda>r. length r = length (columns df)) (rows df)"

text \<open>
  Exceptions are modelled by their message, which is all the handler uses.
  \<open>row_get\<close> is \<^verbatim>\<open>row[name]\<close>, \<open>iloc\<close> is \<^verbatim>\<open>row.iloc[i]\<close>: both raise when the
  row has no such cell. \<open>row_get\<close> gives the cell under the label, which is what
  \<^verbatim>\<open>row[name]\<close> is when the label occurs once among the columns, as in every frame
  with \<open>wf_frame\<close>. With a repeated label pandas hands back all the cells under it at
  once; such frames are outside the model, and what is proved about stored values is
  proved for frames with \<open>wf_frame\<close>.
\<close>

fun index_of :: "'a \<Rightarrow> 'a list \<Rightarrow> nat option" where
  "index_of x [] = None"
| "index_of x (y # ys) = (if x = y then Some 0 else map_option Suc (index_of x ys))"

definition row_get :: "cell list \<Rightarrow> cell list \<Rightarrow> string \<Rightarrow> string + cell" where
  "row_get cols row name =
     (case index_of (CStr name) cols of
        None \<Rightarrow> Inl (''KeyError: '' @ name)
      | Some i \<Rightarrow> if i < length row then Inr (row ! i) else Inl (''KeyError: '' @ name))"

definition iloc :: "cell list \<Rightarrow> nat \<Rightarrow> string + cell" where
  "iloc row i =
     (if i < length row then Inr (row ! i)
      else Inl ''single positional indexer is out-of-bounds'')"

text \<open>
  The assignment \<^verbatim>\<open>if norm in predefined_keys: result[predefined_keys[norm]] = value\<close>
  shared by both loops.
\<close>

definition store :: "(string \<rightharpoonup> string) \<Rightarrow> string \<Rightarrow> string \<Rightarrow> (string \<rightharpoonup> string)" where
  "store result key_candidate val =
     (let norm = normalize_key key_candidate in
      case predefined_keys norm of
        Some slot \<Rightarrow> result(slot \<mapsto> val)
      | None \<Rightarrow> result)"

text \<open>
  The two \<^verbatim>\<open>for index, row in df.iterrows()\<close> loops. Each returns the dict as mutated
  so far, and the exception that ended the loop, if one did.
\<close>

fun named_loop ::
  "cell list \<Rightarrow> cell list list \<Rightarrow> (string \<rightharpoonup> string) \<Rightarrow> (string \<rightharpoonup> string) \<times> string option" where
  "named_loop cols [] result = (result, None)"
| "named_loop cols (row # rest) result =
     (case row_get cols row ''Key'' of
        Inl e \<Rightarrow> (result, Some e)
      | Inr k \<Rightarrow>
         (case row_get cols row ''Value'' of
            Inl e \<Rightarrow> (result, Some e)
          | Inr v \<Rightarrow> named_loop cols rest (store result (py_str k) (py_str v))))"

fun positional_loop ::
  "cell list list \<Rightarrow> (string \<rightharpoonup> string) \<Rightarrow> (string \<rightharpoonup> string) \<times> string option" where
  "positional_loop [] result = (result, None)"
| "positional_loop (row # rest) result =
     (case iloc row 0 of
        Inl e \<Rightarrow> (result, Some e)
      | Inr k \<Rightarrow>
         (if length row > 1
          then (case iloc row 1 of
                  Inl e \<Rightarrow> (result, Some e)
                | Inr v \<Rightarrow> positional_loop rest (store result (py_str k) (py_str v)))
          else positional_loop rest (store result (py_str k) '''')))"

text \<open>
  \<^verbatim>\<open>parse_uploaded_excel\<close>. Its argument is the outcome of \<^verbatim>\<open>pd.read_excel\<close> on
  the uploaded file: an exception (\<open>Inl\<close>) or a frame. The result is the returned dict
  and the messages passed to \<^verbatim>\<open>st.error\<close>. The handler is \<^verbatim>\<open>except Exception\<close>;
  interrupts, which it does not catch, are not modelled.
\<close>

definition parse_uploaded_excel ::
  "string + dataframe \<Rightarrow> (string \<rightharpoonup> string) \<times> string list" where
  "parse_uploaded_excel read_excel =
     (case read_excel of
        Inl e \<Rightarrow> (Map.empty, [''Error processing Excel file: '' @ e])
      | Inr df \<Rightarrow>
         (let (result, exn) =
                (if CStr ''Key'' \<in> set (columns df) \<and> CStr ''Value'' \<in> set (columns df)
                 then named_loop (columns df) (rows df) Map.empty
                 else positional_loop (rows df) Map.empty)
          in (result, case exn of None \<Rightarrow> [] | Some e \<Rightarrow> [''Error processing Excel file: '' @ e])))"


subsection \<open>The downloadable template\<close>

text \<open>
  The labels of \<^verbatim>\<open>template_df\<close>, in order. \<open>template_frame vs\<close> is the frame
  \<^verbatim>\<open>read_excel\<close> returns for the template workbook whose value cells hold \<open>vs\<close>:
  the header row gives the columns Key and Value, and a value cell left blank comes back
  as NaN.
\<close>

definition template_labels :: "string list" where
  "template_labels =
    [''Company Name'',
     ''Industry'',
     ''Overview'',
     ''Governance'',
     ''Ethics'',
     ''Business Model'',
     ''Strategy'',
     ''Stakeholder Engagement'',
     ''Materiality'',
     ''Environmental Performance'',
     ''Environmental Targets'',
     ''Social Performance'',
     ''Community Engagement'',
     ''Labor Practices'',
     ''Human Rights'',
     ''Supply Chain'',
     ''Supplier Evaluation'',
     ''Financial Sustainability'',
     ''Reporting Frameworks'',
     ''Data Assurance'',
     ''KPI'',
     ''Future Goals'',
     ''Innovation'',
     ''Risk Management'']"

definition template_frame :: "cell list \<Rightarrow> dataframe" where
  "template_frame vs =
     \<lparr>columns = [CStr ''Key'', CStr ''Value''],
      rows = map (\<lambda>(l, v). [CStr l, v]) (zip template_labels vs)\<rparr>"

definition filled_template :: dataframe where
  "filled_template = template_frame ([CStr ''Acme'', CStr ''Tech''] @ replicate 22 CNaN)"

subsection \<open>The resolution policy in the words of the specification\<close>

text \<open>
  The label and the value that the policy gives a row: the cells under the columns named
  Key and Value when the frame has both, otherwise the first cell and the second, the
  value being the empty text when the row has no second cell. A slot holds the value of
  the last row whose normalised label resolves to it, and nothing when no row does.
\<close>

definition named_columns :: "cell list \<Rightarrow> bool" where
  "named_columns cols \<longleftrightarrow> CStr ''Key'' \<in> set cols \<and> CStr ''Value'' \<in> set cols"

definition column_pos :: "cell list \<Rightarrow> string \<Rightarrow> nat" where
  "column_pos cols name = length (takeWhile (\<lambda>c. c \<noteq> CStr name) cols)"

definition label_cell :: "cell list \<Rightarrow> cell list \<Rightarrow> cell" where
  "label_cell cols row = (if named_columns cols then row ! column_pos cols ''Key'' else row ! 0)"

definition value_cell :: "cell list \<Rightarrow> cell list \<Rightarrow> cell option" where
  "value_cell cols row =
     (if named_columns cols then Some (row ! column_pos cols ''Value'')
      else if length row > 1 then Some (row ! 1)
      else None)"

definition row_label :: "cell list \<Rightarrow> cell list \<Rightarrow> string" where
  "row_label cols row = py_str (label_cell cols row)"

definition row_value :: "cell list \<Rightarrow> cell list \<Rightarrow> string" where
  "row_value cols row = (case value_cell cols row of Some c \<Rightarrow> py_str c | None \<Rightarrow> [])"

definition resolves_to :: "cell list \<Rightarrow> string \<Rightarrow> cell list \<Rightarrow> bool" where
  "resolves_to cols slot row \<longleftrightarrow>
     predefined_keys (normalize_key (row_label cols row)) = Some slot"

definition ingest_spec :: "dataframe \<Rightarrow> (string \<rightharpoonup> string)" where
  "ingest_spec df slot =
     (case rev (filter (resolves_to (columns df) slot) (rows df)) of
        [] \<Rightarrow> None
      | row # _ \<Rightarrow> Some (row_value (columns df) row))"

text \<open>The rows of a frame stored one after the other, starting from a given dict.\<close>

definition store_rows ::
  "cell list \<Rightarrow> cell list list \<Rightarrow> (string \<rightharpoonup> string) \<Rightarrow> (string \<rightharpoonup> string)" where
  "store_rows cols rs result =
     foldl (\<lambda>res row. store res (row_label cols row) (row_value cols row)) result rs"

section \<open>Section generation\<close>

text \<open>
  The prompt of \<^verbatim>\<open>generate_section\<close>: the introduction chosen by the standard, then
  the question, the answer and the closing request.
\<close>

definition prompt_intro :: "string \<Rightarrow> string" where
  "prompt_intro standard =
    (if standard = ''CSRD''
     then ''You are a professional sustainability consultant. Based on the provided answer, generate a detailed CSRD-compliant report section.''
     else if standard = ''GRI''
     then ''You are a professional sustainability consultant. Based on the provided answer, generate a detailed GRI-compliant report section.''
     else if standard = ''TCFD''
     then ''You are a professional sustainability consultant. Based on the provided answer, generate a detailed TCFD-aligned report section.''
     else if standard = ''SASB''
     then ''You are a professional sustainability consultant. Based on the provided answer, generate a detailed SASB-compliant report section.''
     else if standard = ''Integrated Reporting (<IR>)''
     then ''You are a professional sustainability consultant. Based on the provided answer, generate a detailed Integrated Reporting (<IR>)-compliant report section.''
     else if standard = ''CDP''
     then ''You are a professional sustainability consultant. Based on the provided answer, generate a detailed CDP-compliant report section focused on environmental transparency.''
     else if standard = ''AA1000''
     then ''You are a professional sustainability consultant. Based on the provided answer, generate a detailed AA1000-compliant report section emphasizing stakeholder engagement and accountability.''
     else if standard = ''ISO 26000''
     then ''You are a professional sustainability consultant. Based on the provided answer, generate a detailed report section aligned with ISO 26000 guidance on social responsibility.''
     else if standard = ''ISSB''
     then ''You are a professional sustainability consultant. Based on the provided answer, generate a detailed ISSB-compliant report section addressing both climate-related and general sustainability disclosures.''
     else if standard = ''ESRS''
     then ''You are a professional sustainability consultant. Based on the provided answer, generate a detailed ESRS-compliant report section covering environmental, social, and governance disclosures.''
     else ''You are a professional sustainability consultant. Based on the provided answer, generate a detailed report section.'')"

definition section_prompt :: "string \<Rightarrow> string \<Rightarrow> string \<Rightarrow> string" where
  "section_prompt question_text answer standard =
     prompt_intro standard @ ''\<newline>\<newline>'' @
     ''Section: '' @ question_text @ ''\<newline>'' @
     ''Provided Answer: '' @ answer @ ''\<newline>\<newline>'' @
     ''Please write a comprehensive section on this topic.''"

text \<open>
  The generation service is a parameter: \<open>call prompt\<close> is the outcome of building the
  client and sending the prompt, either an exception (\<open>Inl\<close>, with its message) or the
  content of the response. \<^verbatim>\<open>generate_section\<close> returns the section text and the
  messages it passed to \<^verbatim>\<open>st.error\<close>; on an exception the text is empty.
\<close>

definition generate_section ::
  "(string \<Rightarrow> string + string) \<Rightarrow> string \<Rightarrow> string \<Rightarrow> string \<Rightarrow> string \<Rightarrow> string \<times> string list" where
  "generate_section call section_key question_text answer standard =
     (case call (section_prompt question_text answer standard) of
        Inr content \<Rightarrow> (content, [])
      | Inl e \<Rightarrow> ([], [''An error occurred during report generation: '' @ e]))"

subsection \<open>The progress percentage\<close>

text \<open>
  \<^verbatim>\<open>int((completed / total_sections) * 100)\<close> is computed in binary64 floating point:
  the quotient of the two integers is rounded to the nearest double, ties to even, the
  product with 100 is rounded again, and \<^verbatim>\<open>int\<close> truncates. A positive double is
  the pair \<open>(m, e)\<close> of a significand below \<open>2 ^ 53\<close> and an exponent, with value
  \<open>m * 2 ^ e\<close>;
  zero is \<open>(0, 0)\<close>. Subnormal numbers and overflow are out of reach of the values that
  occur and are not modelled.
\<close>

function bitlen :: "nat \<Rightarrow> nat" where
  "bitlen n = (if n = 0 then 0 else Suc (bitlen (n div 2)))"
  by pat_completeness auto
termination
  by (relation "measure (\<lambda>n. n)") auto

declare bitlen.simps [simp del]

definition round_half_even :: "nat \<Rightarrow> nat \<Rightarrow> nat" where
  "round_half_even n d =
     (let q = n div d; r = n - q * d in
      if 2 * r < d then q
      else if d < 2 * r then q + 1
      else if even q then q else q + 1)"

text \<open>The same rounding for \<open>n / 2 ^ j\<close>, with the quotient taken by a shift.\<close>

definition round_shift :: "nat \<Rightarrow> nat \<Rightarrow> nat" where
  "round_shift n j =
     (let q = drop_bit j n; r = n - q * 2 ^ j in
      if 2 * r < 2 ^ j then q
      else if 2 ^ j < 2 * r then q + 1
      else if even q then q else q + 1)"

text \<open>\<open>floor_log2 n d\<close> is the integer \<open>b\<close> with \<open>2 ^ b \<le> n / d < 2 ^ (b + 1)\<close>.\<close>

definition floor_log2 :: "nat \<Rightarrow> nat \<Rightarrow> int" where
  "floor_log2 n d =
     (let b = int (bitlen n) - int (bitlen d) in
      if (if 0 \<le> b then d * 2 ^ nat b \<le> n else d \<le> n * 2 ^ nat (- b)) then b else b - 1)"

text \<open>
  The double nearest to the rational \<open>n / d\<close>: the quotient is scaled to 53 bits and
  rounded; a significand rounded up to \<open>2 ^ 53\<close> moves to the next exponent.
\<close>

definition double_of_quotient :: "nat \<Rightarrow> nat \<Rightarrow> nat \<times> int" where
  "double_of_quotient n d =
     (if n = 0 then (0, 0)
      else
        let k = 52 - floor_log2 n d;
            m = (if 0 \<le> k then round_half_even (n * 2 ^ nat k) d
                 else round_half_even n (d * 2 ^ nat (- k)))
        in if m = 2 ^ 53 then (2 ^ 52, 1 - k) else (m, - k))"

text \<open>Python's true division of two integers is their quotient, correctly rounded.\<close>

definition float_div :: "nat \<Rightarrow> nat \<Rightarrow> nat \<times> int" where
  "float_div a b = double_of_quotient a b"

text \<open>
  The product of a double and a small integer: the exact product of the significand is
  kept when it fits in 53 bits, and otherwise its low bits are rounded away.
\<close>

definition float_mul_nat :: "nat \<times> int \<Rightarrow> nat \<Rightarrow> nat \<times> int" where
  "float_mul_nat x c =
     (case x of (m, e) \<Rightarrow>
        let p = m * c; b = bitlen p in
        if b \<le> 53 then (p, e)
        else
          let j = b - 53; q = round_shift p j
          in if q = 2 ^ 53 then (2 ^ 52, e + int j + 1) else (q, e + int j))"

text \<open>\<^verbatim>\<open>int\<close> of a double that is not negative drops the fraction.\<close>

definition py_int :: "nat \<times> int \<Rightarrow> nat" where
  "py_int x = (case x of (m, e) \<Rightarrow> if 0 \<le> e then m * 2 ^ nat e else drop_bit (nat (- e)) m)"

definition progress_percent :: "nat \<Rightarrow> nat \<Rightarrow> nat" where
  "progress_percent completed total_sections =
     py_int (float_mul_nat (float_div completed total_sections) 100)"

subsection \<open>The run\<close>

text \<open>
  What a run of \<^verbatim>\<open>generate_full_report\<close> does to the page: error boxes, the creation
  of the progress bar with its first value, and the updates of the bar.
\<close>

datatype ui_event = Error string | ProgressBar nat | Progress nat

text \<open>
  The state of the run: the text accumulated in \<^verbatim>\<open>full_report\<close> (which is what the
  function returns), the counter \<^verbatim>\<open>completed\<close>, the events on the page, and the
  prompts sent to the service so far.
\<close>

record run =
  full_report :: string
  completed :: nat
  ui :: "ui_event list"
  calls :: "string list"

definition dict_get :: "(string \<rightharpoonup> string) \<Rightarrow> string \<Rightarrow> string" where
  "dict_get d key = (case d key of Some v \<Rightarrow> v | None \<Rightarrow> [])"

text \<open>
  The service of a run: \<open>llm i prompt\<close> is the outcome of the call number \<open>i\<close> of the
  run (counted from 0) on that prompt, so a service may answer the same prompt
  differently at different times.
\<close>

type_synonym service = "nat \<Rightarrow> string \<Rightarrow> string + string"

text \<open>
  The loop \<^verbatim>\<open>for key, question_text in questions\<close>. It is entered only with
  \<open>total_sections > 0\<close>, and reaches the division only for an answered slot.
\<close>

fun report_loop ::
  "service \<Rightarrow> (string \<rightharpoonup> string) \<Rightarrow> string \<Rightarrow> nat \<Rightarrow> (string \<times> string) list \<Rightarrow> run \<Rightarrow> run" where
  "report_loop llm report_data standard total_sections [] s = s"
| "report_loop llm report_data standard total_sections ((key, question_text) # qs) s =
     (let answer = dict_get report_data key in
      if strip answer \<noteq> [] then
        (case generate_section (llm (length (calls s))) key question_text answer standard of
           (section_content, errors) \<Rightarrow>
             report_loop llm report_data standard total_sections qs
               \<lparr>full_report = full_report s @ ''# '' @ section_content @ ''\<newline>\<newline>'',
                completed = completed s + 1,
                ui = ui s @ map Error errors @
                       [Progress (progress_percent (completed s + 1) total_sections)],
                calls = calls s @ [section_prompt question_text answer standard]\<rparr>)
      else report_loop llm report_data standard total_sections qs s)"

definition answered :: "(string \<rightharpoonup> string) \<Rightarrow> (string \<times> string) list" where
  "answered report_data =
     filter (\<lambda>(key, question_text). strip (dict_get report_data key) \<noteq> []) questions"

definition answered_keys :: "(string \<rightharpoonup> string) \<Rightarrow> string list" where
  "answered_keys report_data = map fst (answered report_data)"

definition generate_full_report :: "service \<Rightarrow> (string \<rightharpoonup> string) \<Rightarrow> string \<Rightarrow> run" where
  "generate_full_report llm report_data standard =
     (let total_sections = length (answered_keys report_data) in
      if total_sections = 0
      then \<lparr>full_report = [], completed = 0, ui = [Error ''No responses provided.''], calls = []\<rparr>
      else report_loop llm report_data standard total_sections questions
             \<lparr>full_report = [], completed = 0, ui = [ProgressBar 0], calls = []\<rparr>)"

text \<open>
  Reading a run: the outcomes the service gave to the prompts of the run, the text a
  call contributes to its section, whether it succeeded, and the values shown by the
  progress bar.
\<close>

definition outcomes :: "service \<Rightarrow> string list \<Rightarrow> (string + string) list" where
  "outcomes llm ps = map (\<lambda>(i, p). llm i p) (enumerate 0 ps)"

fun section_text :: "string + string \<Rightarrow> string" where
  "section_text (Inr content) = content"
| "section_text (Inl e) = []"

fun succeeded :: "string + string \<Rightarrow> bool" where
  "succeeded (Inr content) = True"
| "succeeded (Inl e) = False"

fun progress_values :: "ui_event list \<Rightarrow> nat list" where
  "progress_values [] = []"
| "progress_values (Error m # es) = progress_values es"
| "progress_values (ProgressBar n # es) = n # progress_values es"
| "progress_values (Progress n # es) = n # progress_values es"

fun error_messages :: "ui_event list \<Rightarrow> string list" where
  "error_messages [] = []"
| "error_messages (Error m # es) = m # error_messages es"
| "error_messages (ProgressBar n # es) = error_messages es"
| "error_messages (Progress n # es) = error_messages es"

text \<open>
  The prompts of the answered slots in questionnaire order, the block of text that the
  loop appends for a call, and the error box that \<^verbatim>\<open>generate_section\<close> shows for it.
\<close>

definition prompts_for ::
  "(string \<rightharpoonup> string) \<Rightarrow> string \<Rightarrow> (string \<times> string) list \<Rightarrow> string list" where
  "prompts_for report_data standard qs =
     map (\<lambda>(key, question_text). section_prompt question_text (dict_get report_data key) standard)
       (filter (\<lambda>(key, question_text). strip (dict_get report_data key) \<noteq> []) qs)"

definition section_prompts :: "(string \<rightharpoonup> string) \<Rightarrow> string \<Rightarrow> string list" where
  "section_prompts report_data standard = prompts_for report_data standard questions"

definition heading_block :: "string + string \<Rightarrow> string" where
  "heading_block outcome = ''# '' @ section_text outcome @ ''\<newline>\<newline>''"

fun failure_messages :: "string + string \<Rightarrow> string list" where
  "failure_messages (Inr content) = []"
| "failure_messages (Inl e) = [''An error occurred during report generation: '' @ e]"

section \<open>Compliance evaluation\<close>

text \<open>
  The values \<^verbatim>\<open>json.loads\<close> returns. A number is kept as the text of its literal;
  its value plays no part here. A dict is the list of its items.
\<close>

datatype json =
    JNull
  | JBool bool
  | JNum string
  | JStr string
  | JList "json list"
  | JDict "(string \<times> json) list"

fun is_dict :: "json \<Rightarrow> bool" where
  "is_dict (JDict items) = True"
| "is_dict v = False"

definition compliance_prompt :: "string \<Rightarrow> string \<Rightarrow> string" where
  "compliance_prompt report_text standard =
    (if standard = ''CSRD''
     then ''You are an expert in sustainability reporting with extensive knowledge of the CSRD standard. Evaluate the compliance of the following report with the CSRD standard and provide your evaluation in a JSON format with the following keys: 'score' (a number between 1 and 100), 'strengths', 'weaknesses', and 'recommendations'. Here is the report:\<newline>\<newline>'' @ report_text
     else if standard = ''GRI''
     then ''You are an expert in sustainability reporting with extensive knowledge of the GRI standards. Evaluate the compliance of the following report with the GRI standards and provide your evaluation in a JSON format with the following keys: 'score' (a number between 1 and 100), 'strengths', 'weaknesses', and 'recommendations'. Here is the report:\<newline>\<newline>'' @ report_text
     else if standard = ''TCFD''
     then ''You are an expert in sustainability reporting with extensive knowledge of the TCFD recommendations. Evaluate the compliance of the following report with the TCFD recommendations and provide your evaluation in a JSON format with the following keys: 'score' (a number between 1 and 100), 'strengths', 'weaknesses', and 'recommendations'. Here is the report:\<newline>\<newline>'' @ report_text
     else if standard = ''SASB''
     then ''You are an expert in sustainability reporting with extensive knowledge of SASB standards. Evaluate the compliance of the following report with SASB standards and provide your evaluation in a JSON format with the following keys: 'score' (a number between 1 and 100), 'strengths', 'weaknesses', and 'recommendations'. Here is the report:\<newline>\<newline>'' @ report_text
     else if standard = ''Integrated Reporting (<IR>)''
     then ''You are an expert in sustainability reporting with extensive knowledge of Integrated Reporting (<IR>) guidelines. Evaluate the compliance of the following report with Integrated Reporting guidelines and provide your evaluation in a JSON format with the following keys: 'score' (a number between 1 and 100), 'strengths', 'weaknesses', and 'recommendations'. Here is the report:\<newline>\<newline>'' @ report_text
     else if standard = ''CDP''
     then ''You are an expert in sustainability reporting with extensive knowledge of CDP requirements. Evaluate the compliance of the following report with CDP guidelines and provide your evaluation in a JSON format with the following keys: 'score' (a number between 1 and 100), 'strengths', 'weaknesses', and 'recommendations'. Here is the report:\<newline>\<newline>'' @ report_text
     else if standard = ''AA1000''
     then ''You are an expert in sustainability reporting with extensive knowledge of AA1000 standards. Evaluate the compliance of the following report with AA1000 principles and provide your evaluation in a JSON format with the following keys: 'score' (a number between 1 and 100), 'strengths', 'weaknesses', and 'recommendations'. Here is the report:\<newline>\<newline>'' @ report_text
     else if standard = ''ISO 26000''
     then ''You are an expert in sustainability reporting with extensive knowledge of ISO 26000 guidance. Evaluate the compliance of the following report with ISO 26000 principles on social responsibility and provide your evaluation in a JSON format with the following keys: 'score' (a number between 1 and 100), 'strengths', 'weaknesses', and 'recommendations'. Here is the report:\<newline>\<newline>'' @ report_text
     else if standard = ''ISSB''
     then ''You are an expert in sustainability reporting with extensive knowledge of ISSB guidelines. Evaluate the compliance of the following report with ISSB standards and provide your evaluation in a JSON format with the following keys: 'score' (a number between 1 and 100), 'strengths', 'weaknesses', and 'recommendations'. Here is the report:\<newline>\<newline>'' @ report_text
     else if standard = ''ESRS''
     then ''You are an expert in sustainability reporting with extensive knowledge of the European Sustainability Reporting Standards (ESRS). Evaluate the compliance of the following report with ESRS and provide your evaluation in a JSON format with the following keys: 'score' (a number between 1 and 100), 'strengths', 'weaknesses', and 'recommendations'. Here is the report:\<newline>\<newline>'' @ report_text
     else ''You are an expert in sustainability reporting. Evaluate the compliance of the following report with the relevant sustainability reporting standards and provide your evaluation in a JSON format with the following keys: 'score' (a number between 1 and 100), 'strengths', 'weaknesses', and 'recommendations'. Here is the report:\<newline>\<newline>'' @ report_text)"

definition fallback :: "string \<Rightarrow> json" where
  "fallback result =
     JDict [(''score'', JNull), (''strengths'', JStr result),
            (''weaknesses'', JStr []), (''recommendations'', JStr [])]"

text \<open>
  \<^verbatim>\<open>measure_compliance\<close>. The service call is outside the \<^verbatim>\<open>try\<close>, so its
  exception leaves the function (\<open>Inl\<close>). The decoder \<^verbatim>\<open>json.loads\<close> is a parameter:
  it raises (\<open>Inl\<close>) or returns a value.
\<close>

definition measure_compliance ::
  "(string \<Rightarrow> string + string) \<Rightarrow> (string \<Rightarrow> string + json) \<Rightarrow> string \<Rightarrow> string \<Rightarrow> string + json" where
  "measure_compliance llm json_loads report_text standard =
     (case llm (compliance_prompt report_text standard) of
        Inl e \<Rightarrow> Inl e
      | Inr content \<Rightarrow>
         (let result = strip content in
          Inr (case json_loads result of
                 Inl e \<Rightarrow> fallback result
               | Inr data \<Rightarrow> if is_dict data then data else fallback result)))"

section \<open>The last steps of the PDF writer\<close>

text \<open>
  The content of a page can hold any code point, so page text is a list of code points.
  \<open>replace\<close> is \<^verbatim>\<open>str.replace\<close> for a pattern and a replacement of one character
  each.
\<close>

type_synonym ustring = "nat list"

definition replace :: "nat \<Rightarrow> nat \<Rightarrow> ustring \<Rightarrow> ustring" where
  "replace old new s = map (\<lambda>c. if c = old then new else c) s"

definition sanitize_page :: "ustring \<Rightarrow> ustring" where
  "sanitize_page p = replace 0x2019 0x27 (replace 0x2014 0x2D (replace 0x2013 0x2D p))"

text \<open>
  The loop \<^verbatim>\<open>for key in list(pdf.pages.keys())\<close> over the dict of pages, keyed by
  page number.
\<close>

definition sanitize_pages :: "(nat \<rightharpoonup> ustring) \<Rightarrow> (nat \<rightharpoonup> ustring)" where
  "sanitize_pages pages = (\<lambda>key. map_option sanitize_page (pages key))"

text \<open>\<^verbatim>\<open>encode("latin1", errors="replace")\<close>: a code point above 255 becomes a question mark.\<close>

definition encode_latin1_replace :: "ustring \<Rightarrow> 8 word list" where
  "encode_latin1_replace s = map (\<lambda>c. if c < 256 then of_nat c else 0x3F) s"

text \<open>
  \<^verbatim>\<open>create_pdf\<close> from the sanitising loop on. The calls that lay the report out
  belong to the PDF library; their effect is the dict \<open>pages\<close> they leave in the
  document object. \<open>output\<close> is the library's \<^verbatim>\<open>pdf.output(dest="S")\<close> on the
  document with the given pages, which returns the text of the file or raises.
\<close>

definition create_pdf ::
  "(nat \<rightharpoonup> ustring) \<Rightarrow> ((nat \<rightharpoonup> ustring) \<Rightarrow> string + ustring) \<Rightarrow> string + 8 word list" where
  "create_pdf pages output =
     (case output (sanitize_pages pages) of
        Inl e \<Rightarrow> Inl e
      | Inr s \<Rightarrow> Inr (encode_latin1_replace s))"

text \<open>
  The library's \<^verbatim>\<open>pdf.output(dest="S")\<close>, as far as the encoding of the pages goes.
  It is the \<^verbatim>\<open>output\<close> of the fpdf release whose pages are texts, which is what the
  sanitising loop needs: it closes the document and writes the pages 1 to \<open>nb\<close> one
  after the other, encoding the text of each page to latin-1 with no error handler, so a
  code point above 255 left on a page raises \<^verbatim>\<open>UnicodeEncodeError\<close>. When every page
  passes, it returns the text of the file, which is left open here as \<open>document\<close>.
\<close>

definition strict_latin1 :: "ustring \<Rightarrow> bool" where
  "strict_latin1 p = list_all (\<lambda>c. c < 256) p"

definition fpdf_output ::
  "nat \<Rightarrow> ((nat \<rightharpoonup> ustring) \<Rightarrow> ustring) \<Rightarrow> (nat \<rightharpoonup> ustring) \<Rightarrow> string + ustring" where
  "fpdf_output nb document pages =
     (if list_all (\<lambda>n. case pages n of Some p \<Rightarrow> strict_latin1 p | None \<Rightarrow> True) [1 ..< Suc nb]
      then Inr (document pages)
      else Inl ''UnicodeEncodeError'')"

section \<open>Ingestion: the loops\<close>

lemma slot_ids: "map snd predefined_keys_items = map fst questions"
  by (simp add: predefined_keys_items_def questions_def)

lemma predefined_keys_slot:
  assumes "predefined_keys n = Some slot"
  shows "slot \<in> fst ` set questions"
proof -
  from assms have "(n, slot) \<in> set predefined_keys_items"
    by (simp add: predefined_keys_def map_of_SomeD)
  then have "slot \<in> set (map snd predefined_keys_items)" by force
  then show ?thesis by (simp add: slot_ids)
qed

lemma store_apply:
  "store result l v slot =
     (if predefined_keys (normalize_key l) = Some slot then Some v else result slot)"
  by (auto simp: store_def Let_def split: option.splits)

lemma index_of_pos:
  "x \<in> set xs \<Longrightarrow> index_of x xs = Some (length (takeWhile (\<lambda>y. y \<noteq> x) xs))"
  by (induction xs) auto

lemma takeWhile_pos_less:
  "x \<in> set xs \<Longrightarrow> length (takeWhile (\<lambda>y. y \<noteq> x) xs) < length xs"
  by (induction xs) auto

lemma row_get_present:
  assumes "CStr name \<in> set cols" and "length row = length cols"
  shows "row_get cols row name = Inr (row ! column_pos cols name)"
  using assms index_of_pos [of "CStr name" cols] takeWhile_pos_less [of "CStr name" cols]
  by (simp add: row_get_def column_pos_def)

lemma store_rows_Nil: "store_rows cols [] result = result"
  by (simp add: store_rows_def)

lemma store_rows_Cons:
  "store_rows cols (r # rs) result =
     store_rows cols rs (store result (row_label cols r) (row_value cols r))"
  by (simp add: store_rows_def)

lemma store_rows_snoc:
  "store_rows cols (rs @ [r]) result =
     store (store_rows cols rs result) (row_label cols r) (row_value cols r)"
  by (simp add: store_rows_def)

lemma named_loop_store_rows:
  assumes "named_columns cols"
  shows "list_all (\<lambda>r. length r = length cols) rs \<Longrightarrow>
         named_loop cols rs result = (store_rows cols rs result, None)"
proof (induction rs arbitrary: result)
  case Nil
  show ?case by (simp add: store_rows_Nil)
next
  case (Cons r rs)
  from Cons.prems have len: "length r = length cols"
    and rest: "list_all (\<lambda>r. length r = length cols) rs" by simp_all
  from assms have k: "CStr ''Key'' \<in> set cols" and v: "CStr ''Value'' \<in> set cols"
    by (simp_all add: named_columns_def)
  have "row_get cols r ''Key'' = Inr (row ! column_pos cols ''Key'')" if "row = r" for row
    using that row_get_present [OF k len] by simp
  then have gk: "row_get cols r ''Key'' = Inr (r ! column_pos cols ''Key'')" by simp
  have gv: "row_get cols r ''Value'' = Inr (r ! column_pos cols ''Value'')"
    using row_get_present [OF v len] .
  have lab: "row_label cols r = py_str (r ! column_pos cols ''Key'')"
    using assms by (simp add: row_label_def label_cell_def)
  have val: "row_value cols r = py_str (r ! column_pos cols ''Value'')"
    using assms by (simp add: row_value_def value_cell_def)
  show ?case
    using Cons.IH [OF rest] by (simp add: gk gv lab val store_rows_Cons)
qed

lemma positional_loop_store_rows:
  assumes "\<not> named_columns cols"
  shows "list_all (\<lambda>r. r \<noteq> []) rs \<Longrightarrow>
         positional_loop rs result = (store_rows cols rs result, None)"
proof (induction rs arbitrary: result)
  case Nil
  show ?case by (simp add: store_rows_Nil)
next
  case (Cons r rs)
  from Cons.prems have ne: "r \<noteq> []" and rest: "list_all (\<lambda>r. r \<noteq> []) rs" by simp_all
  from ne have g0: "iloc r 0 = Inr (r ! 0)" by (simp add: iloc_def)
  have lab: "row_label cols r = py_str (r ! 0)"
    using assms by (simp add: row_label_def label_cell_def)
  show ?case
  proof (cases "length r > 1")
    case True
    then have g1: "iloc r (Suc 0) = Inr (r ! Suc 0)" by (simp add: iloc_def)
    from True have val: "row_value cols r = py_str (r ! Suc 0)"
      using assms by (simp add: row_value_def value_cell_def)
    from True show ?thesis
      using Cons.IH [OF rest] by (simp add: g0 g1 lab val store_rows_Cons)
  next
    case False
    then have val: "row_value cols r = []"
      using assms by (simp add: row_value_def value_cell_def)
    from False show ?thesis
      using Cons.IH [OF rest] by (simp add: g0 lab val store_rows_Cons)
  qed
qed

lemma store_rows_lookup:
  "store_rows cols rs result slot =
     (case rev (filter (resolves_to cols slot) rs) of
        [] \<Rightarrow> result slot
      | r # _ \<Rightarrow> Some (row_value cols r))"
proof (induction rs rule: rev_induct)
  case Nil
  show ?case by (simp add: store_rows_Nil)
next
  case (snoc r rs)
  show ?case
    by (simp add: store_rows_snoc store_apply snoc.IH resolves_to_def)
qed

lemma store_rows_empty: "store_rows (columns df) (rows df) Map.empty = ingest_spec df"
  by (rule ext) (simp add: store_rows_lookup ingest_spec_def)

lemma parse_Inr:
  "parse_uploaded_excel (Inr df) =
     (case (if named_columns (columns df)
            then named_loop (columns df) (rows df) Map.empty
            else positional_loop (rows df) Map.empty) of
        (result, exn) \<Rightarrow>
          (result, case exn of None \<Rightarrow> []
                   | Some e \<Rightarrow> [''Error processing Excel file: '' @ e]))"
  by (simp add: parse_uploaded_excel_def named_columns_def)

lemma parse_frame:
  assumes "wf_frame df" and "columns df \<noteq> []"
  shows "parse_uploaded_excel (Inr df) = (ingest_spec df, [])"
proof -
  from assms(1) have len: "list_all (\<lambda>r. length r = length (columns df)) (rows df)"
    by (simp add: wf_frame_def)
  show ?thesis
  proof (cases "named_columns (columns df)")
    case True
    with named_loop_store_rows [OF True len, of Map.empty] show ?thesis
      by (simp add: parse_Inr store_rows_empty)
  next
    case False
    from len assms(2) have "list_all (\<lambda>r. r \<noteq> []) (rows df)"
      by (auto simp: list_all_iff)
    from positional_loop_store_rows [OF False this, of Map.empty] False show ?thesis
      by (simp add: parse_Inr store_rows_empty)
  qed
qed

lemma parse_no_columns:
  assumes "wf_frame df" and "columns df = []"
  shows "fst (parse_uploaded_excel (Inr df)) = Map.empty"
proof -
  from assms have len: "list_all (\<lambda>r. r = []) (rows df)"
    by (simp add: wf_frame_def)
  from assms(2) have nn: "\<not> named_columns (columns df)"
    by (simp add: named_columns_def)
  have "fst (positional_loop (rows df) Map.empty) = Map.empty"
  proof (cases "rows df")
    case Nil
    then show ?thesis by simp
  next
    case (Cons r rs)
    with len have "r = []" by simp
    with Cons show ?thesis by (simp add: iloc_def)
  qed
  with nn show ?thesis
    by (cases "positional_loop (rows df) Map.empty") (simp add: parse_Inr)
qed

lemma parse_error_empty:
  assumes "wf_frame df" and "snd (parse_uploaded_excel (Inr df)) \<noteq> []"
  shows "fst (parse_uploaded_excel (Inr df)) = Map.empty"
proof (cases "columns df = []")
  case True
  with assms(1) show ?thesis by (rule parse_no_columns)
next
  case False
  with assms(1) have "parse_uploaded_excel (Inr df) = (ingest_spec df, [])" by (rule parse_frame)
  with assms(2) show ?thesis by simp
qed

lemma dom_store:
  "dom result \<subseteq> fst ` set questions \<Longrightarrow> dom (store result k v) \<subseteq> fst ` set questions"
proof (rule subsetI)
  fix slot
  assume sub: "dom result \<subseteq> fst ` set questions" and "slot \<in> dom (store result k v)"
  then obtain w where "store result k v slot = Some w" by auto
  then have "predefined_keys (normalize_key k) = Some slot \<or> result slot = Some w"
    by (simp add: store_apply split: if_splits)
  then show "slot \<in> fst ` set questions"
    using sub predefined_keys_slot by blast
qed

lemma dom_named_loop:
  "dom result \<subseteq> fst ` set questions \<Longrightarrow>
   dom (fst (named_loop cols rs result)) \<subseteq> fst ` set questions"
proof (induction rs arbitrary: result)
  case Nil
  then show ?case by simp
next
  case (Cons r rs)
  show ?case
  proof (cases "row_get cols r ''Key''")
    case (Inl e)
    with Cons.prems show ?thesis by simp
  next
    case k: (Inr k)
    show ?thesis
    proof (cases "row_get cols r ''Value''")
      case (Inl e)
      with k Cons.prems show ?thesis by simp
    next
      case (Inr v)
      with k Cons.IH [OF dom_store [OF Cons.prems]] show ?thesis by simp
    qed
  qed
qed

lemma dom_positional_loop:
  "dom result \<subseteq> fst ` set questions \<Longrightarrow>
   dom (fst (positional_loop rs result)) \<subseteq> fst ` set questions"
proof (induction rs arbitrary: result)
  case Nil
  then show ?case by simp
next
  case (Cons r rs)
  show ?case
  proof (cases "iloc r 0")
    case (Inl e)
    with Cons.prems show ?thesis by simp
  next
    case k: (Inr k)
    show ?thesis
    proof (cases "length r > 1")
      case True
      then have "iloc r (Suc 0) = Inr (r ! Suc 0)" by (simp add: iloc_def)
      with k True Cons.IH [OF dom_store [OF Cons.prems]] show ?thesis by simp
    next
      case False
      with k Cons.IH [OF dom_store [OF Cons.prems]] show ?thesis by simp
    qed
  qed
qed

lemma dom_parse: "dom (fst (parse_uploaded_excel src)) \<subseteq> fst ` set questions"
proof (cases src)
  case (Inl e)
  then show ?thesis by (simp add: parse_uploaded_excel_def)
next
  case (Inr df)
  show ?thesis
  proof (cases "named_columns (columns df)")
    case True
    with dom_named_loop [of Map.empty "columns df" "rows df"] Inr show ?thesis
      by (cases "named_loop (columns df) (rows df) Map.empty") (simp add: parse_Inr)
  next
    case False
    with dom_positional_loop [of Map.empty "rows df"] Inr show ?thesis
      by (cases "positional_loop (rows df) Map.empty") (simp add: parse_Inr)
  qed
qed

lemma strip_nan: "strip ''nan'' = ''nan''"
  by (simp add: strip_def py_isspace_def)

lemma nan_answered:
  assumes "m slot = Some ''nan''" and "slot \<in> fst ` set questions"
  shows "slot \<in> set (answered_keys m)"
proof -
  from assms(2) obtain q where q: "(slot, q) \<in> set questions" by auto
  from assms(1) have "strip (dict_get m slot) \<noteq> []"
    by (simp add: dict_get_def strip_nan)
  with q have "(slot, q) \<in> set (answered m)" by (simp add: answered_def)
  then show ?thesis by (force simp: answered_keys_def)
qed

lemma py_lower_char_letters:
  "py_lower_char CHR ''A'' = CHR ''a'' \<and> py_lower_char CHR ''B'' = CHR ''b'' \<and> py_lower_char CHR ''C'' = CHR ''c'' \<and>
   py_lower_char CHR ''D'' = CHR ''d'' \<and> py_lower_char CHR ''E'' = CHR ''e'' \<and> py_lower_char CHR ''F'' = CHR ''f'' \<and>
   py_lower_char CHR ''G'' = CHR ''g'' \<and> py_lower_char CHR ''H'' = CHR ''h'' \<and> py_lower_char CHR ''I'' = CHR ''i'' \<and>
   py_lower_char CHR ''J'' = CHR ''j'' \<and> py_lower_char CHR ''K'' = CHR ''k'' \<and> py_lower_char CHR ''L'' = CHR ''l'' \<and>
   py_lower_char CHR ''M'' = CHR ''m'' \<and> py_lower_char CHR ''N'' = CHR ''n'' \<and> py_lower_char CHR ''O'' = CHR ''o'' \<and>
   py_lower_char CHR ''P'' = CHR ''p'' \<and> py_lower_char CHR ''Q'' = CHR ''q'' \<and> py_lower_char CHR ''R'' = CHR ''r'' \<and>
   py_lower_char CHR ''S'' = CHR ''s'' \<and> py_lower_char CHR ''T'' = CHR ''t'' \<and> py_lower_char CHR ''U'' = CHR ''u'' \<and>
   py_lower_char CHR ''V'' = CHR ''v'' \<and> py_lower_char CHR ''W'' = CHR ''w'' \<and> py_lower_char CHR ''X'' = CHR ''x'' \<and>
   py_lower_char CHR ''Y'' = CHR ''y'' \<and> py_lower_char CHR ''Z'' = CHR ''z'' \<and> py_lower_char CHR ''a'' = CHR ''a'' \<and>
   py_lower_char CHR ''b'' = CHR ''b'' \<and> py_lower_char CHR ''c'' = CHR ''c'' \<and> py_lower_char CHR ''d'' = CHR ''d'' \<and>
   py_lower_char CHR ''e'' = CHR ''e'' \<and> py_lower_char CHR ''f'' = CHR ''f'' \<and> py_lower_char CHR ''g'' = CHR ''g'' \<and>
   py_lower_char CHR ''h'' = CHR ''h'' \<and> py_lower_char CHR ''i'' = CHR ''i'' \<and> py_lower_char CHR ''j'' = CHR ''j'' \<and>
   py_lower_char CHR ''k'' = CHR ''k'' \<and> py_lower_char CHR ''l'' = CHR ''l'' \<and> py_lower_char CHR ''m'' = CHR ''m'' \<and>
   py_lower_char CHR ''n'' = CHR ''n'' \<and> py_lower_char CHR ''o'' = CHR ''o'' \<and> py_lower_char CHR ''p'' = CHR ''p'' \<and>
   py_lower_char CHR ''q'' = CHR ''q'' \<and> py_lower_char CHR ''r'' = CHR ''r'' \<and> py_lower_char CHR ''s'' = CHR ''s'' \<and>
   py_lower_char CHR ''t'' = CHR ''t'' \<and> py_lower_char CHR ''u'' = CHR ''u'' \<and> py_lower_char CHR ''v'' = CHR ''v'' \<and>
   py_lower_char CHR ''w'' = CHR ''w'' \<and> py_lower_char CHR ''x'' = CHR ''x'' \<and> py_lower_char CHR ''y'' = CHR ''y'' \<and>
   py_lower_char CHR ''z'' = CHR ''z'' \<and> py_lower_char (CHR '' '') = CHR '' ''"
  by (simp_all add: py_lower_char_def char_of_def bit_Suc_0_iff)

lemma py_isalnum_letters:
  "py_isalnum CHR ''a'' \<and> py_isalnum CHR ''b'' \<and> py_isalnum CHR ''c'' \<and> py_isalnum CHR ''d'' \<and>
   py_isalnum CHR ''e'' \<and> py_isalnum CHR ''f'' \<and> py_isalnum CHR ''g'' \<and> py_isalnum CHR ''h'' \<and>
   py_isalnum CHR ''i'' \<and> py_isalnum CHR ''j'' \<and> py_isalnum CHR ''k'' \<and> py_isalnum CHR ''l'' \<and>
   py_isalnum CHR ''m'' \<and> py_isalnum CHR ''n'' \<and> py_isalnum CHR ''o'' \<and> py_isalnum CHR ''p'' \<and>
   py_isalnum CHR ''q'' \<and> py_isalnum CHR ''r'' \<and> py_isalnum CHR ''s'' \<and> py_isalnum CHR ''t'' \<and>
   py_isalnum CHR ''u'' \<and> py_isalnum CHR ''v'' \<and> py_isalnum CHR ''w'' \<and> py_isalnum CHR ''x'' \<and>
   py_isalnum CHR ''y'' \<and> py_isalnum CHR ''z'' \<and> \<not> py_isalnum (CHR '' '')"
  by (simp_all add: py_isalnum_def)

lemma template_labels_resolve:
  "predefined_keys (normalize_key ''Company Name'') = Some ''company_name'' \<and>
   predefined_keys (normalize_key ''Industry'') = Some ''industry'' \<and>
   predefined_keys (normalize_key ''Overview'') = Some ''overview'' \<and>
   predefined_keys (normalize_key ''Governance'') = Some ''governance'' \<and>
   predefined_keys (normalize_key ''Ethics'') = Some ''ethics'' \<and>
   predefined_keys (normalize_key ''Business Model'') = Some ''business_model'' \<and>
   predefined_keys (normalize_key ''Strategy'') = Some ''strategy'' \<and>
   predefined_keys (normalize_key ''Stakeholder Engagement'') = Some ''stakeholder_engagement'' \<and>
   predefined_keys (normalize_key ''Materiality'') = Some ''materiality'' \<and>
   predefined_keys (normalize_key ''Environmental Performance'') = Some ''environmental_performance'' \<and>
   predefined_keys (normalize_key ''Environmental Targets'') = Some ''environmental_targets'' \<and>
   predefined_keys (normalize_key ''Social Performance'') = Some ''social_performance'' \<and>
   predefined_keys (normalize_key ''Community Engagement'') = Some ''community_engagement'' \<and>
   predefined_keys (normalize_key ''Labor Practices'') = Some ''labor_practices'' \<and>
   predefined_keys (normalize_key ''Human Rights'') = Some ''human_rights'' \<and>
   predefined_keys (normalize_key ''Supply Chain'') = Some ''supply_chain'' \<and>
   predefined_keys (normalize_key ''Supplier Evaluation'') = Some ''supplier_evaluation'' \<and>
   predefined_keys (normalize_key ''Financial Sustainability'') = Some ''financial_sustainability'' \<and>
   predefined_keys (normalize_key ''Reporting Frameworks'') = Some ''reporting_frameworks'' \<and>
   predefined_keys (normalize_key ''Data Assurance'') = Some ''data_assurance'' \<and>
   predefined_keys (normalize_key ''KPI'') = Some ''kpi'' \<and>
   predefined_keys (normalize_key ''Future Goals'') = Some ''future_goals'' \<and>
   predefined_keys (normalize_key ''Innovation'') = Some ''innovation'' \<and>
   predefined_keys (normalize_key ''Risk Management'') = Some ''risk_management''"
  by (simp_all add: normalize_key_def lower_def py_lower_char_letters py_isalnum_letters
        predefined_keys_def predefined_keys_items_def)
lemmas ingest_eval =
  parse_Inr named_columns_def row_get_def iloc_def store_def normalize_key_def lower_def
  py_lower_char_letters py_isalnum_letters predefined_keys_def predefined_keys_items_def

lemma replicate_22:
  "replicate 22 x = [x, x, x, x, x, x, x, x, x, x, x, x, x, x, x, x, x, x, x, x, x, x]"
  by (simp add: numeral_eq_Suc)

section \<open>Ingestion: the claims\<close>

text \<open>
  C9. Every value of \<^verbatim>\<open>predefined_keys\<close> is the key of an entry of
  \<^verbatim>\<open>questions\<close>, every key of the dict returned by \<^verbatim>\<open>parse_uploaded_excel\<close> is
  such a slot, whatever the source, and a label that does not resolve leaves the dict as
  it was.
\<close>

theorem answer_map_keys_are_slots:
  "(predefined_keys n = Some s \<longrightarrow> s \<in> fst ` set questions) \<and>
   (fst (parse_uploaded_excel src) k = Some v \<longrightarrow> k \<in> fst ` set questions) \<and>
   (predefined_keys (normalize_key l) = None \<longrightarrow> store result l w = result)"
proof (intro conjI impI)
  assume "predefined_keys n = Some s"
  then show "s \<in> fst ` set questions" by (rule predefined_keys_slot)
next
  assume "fst (parse_uploaded_excel src) k = Some v"
  then have "k \<in> dom (fst (parse_uploaded_excel src))" by auto
  with dom_parse show "k \<in> fst ` set questions" by blast
next
  assume "predefined_keys (normalize_key l) = None"
  then show "store result l w = result" by (simp add: store_def)
qed

theorem answer_map_keys_are_slots_witness:
  "predefined_keys ''kpi'' = Some ''kpi'' \<and> ''kpi'' \<in> fst ` set questions \<and>
   fst (parse_uploaded_excel
         (Inr \<lparr>columns = [CStr ''Key'', CStr ''Value''],
               rows = [[CStr ''Mood'', CStr ''fine''], [CStr ''Industry'', CStr ''Retail'']]\<rparr>))
     ''industry'' = Some ''Retail'' \<and>
   ''industry'' \<in> fst ` set questions \<and>
   predefined_keys (normalize_key ''Mood'') = None \<and>
   store Map.empty ''Mood'' ''fine'' = Map.empty"
proof -
  have a: "predefined_keys ''kpi'' = Some ''kpi''"
    by (simp add: predefined_keys_def predefined_keys_items_def)
  have b: "fst (parse_uploaded_excel
         (Inr \<lparr>columns = [CStr ''Key'', CStr ''Value''],
               rows = [[CStr ''Mood'', CStr ''fine''], [CStr ''Industry'', CStr ''Retail'']]\<rparr>))
     ''industry'' = Some ''Retail''"
    by (simp add: ingest_eval)
  have c: "predefined_keys (normalize_key ''Mood'') = None"
    by (simp add: ingest_eval)
  from a b c
    answer_map_keys_are_slots [of "''kpi''" "''kpi''"
      "Inr \<lparr>columns = [CStr ''Key'', CStr ''Value''],
            rows = [[CStr ''Mood'', CStr ''fine''], [CStr ''Industry'', CStr ''Retail'']]\<rparr>"
      "''industry''" "''Retail''" "''Mood''" Map.empty "''fine''"]
  show ?thesis by simp
qed

text \<open>
  C8. On a frame with at least one column, \<^verbatim>\<open>parse_uploaded_excel\<close> reports no
  error and returns the dict of the resolution policy: label and value from the columns
  named Key and Value when both exist, otherwise from the first two cells with the
  empty text for a missing second cell; each slot holds the value of the last row that
  resolves to it, and rows that resolve to no slot are skipped.
\<close>

theorem parse_uploaded_excel_policy:
  assumes "wf_frame df" and "columns df \<noteq> []"
  shows "parse_uploaded_excel (Inr df) = (ingest_spec df, [])"
  using assms by (rule parse_frame)

theorem parse_uploaded_excel_policy_witness:
  "wf_frame \<lparr>columns = [CStr ''Topic'', CStr ''Answer''],
             rows = [[CStr ''Industry'', CStr ''Retail''], [CStr ''Mood'', CStr ''fine''],
                     [CStr ''INDUSTRY'', CStr ''Wholesale'']]\<rparr> \<and>
   parse_uploaded_excel
     (Inr \<lparr>columns = [CStr ''Topic'', CStr ''Answer''],
           rows = [[CStr ''Industry'', CStr ''Retail''], [CStr ''Mood'', CStr ''fine''],
                   [CStr ''INDUSTRY'', CStr ''Wholesale'']]\<rparr>) =
     (ingest_spec \<lparr>columns = [CStr ''Topic'', CStr ''Answer''],
                   rows = [[CStr ''Industry'', CStr ''Retail''], [CStr ''Mood'', CStr ''fine''],
                           [CStr ''INDUSTRY'', CStr ''Wholesale'']]\<rparr>, []) \<and>
   ingest_spec \<lparr>columns = [CStr ''Topic'', CStr ''Answer''],
                rows = [[CStr ''Industry'', CStr ''Retail''], [CStr ''Mood'', CStr ''fine''],
                        [CStr ''INDUSTRY'', CStr ''Wholesale'']]\<rparr> ''industry'' = Some ''Wholesale'' \<and>
   parse_uploaded_excel (Inr \<lparr>columns = [CStr ''Topic''], rows = [[CStr ''Industry'']]\<rparr>) =
     (ingest_spec \<lparr>columns = [CStr ''Topic''], rows = [[CStr ''Industry'']]\<rparr>, []) \<and>
   ingest_spec \<lparr>columns = [CStr ''Topic''], rows = [[CStr ''Industry'']]\<rparr> ''industry'' = Some []"
proof -
  let ?df = "\<lparr>columns = [CStr ''Topic'', CStr ''Answer''],
             rows = [[CStr ''Industry'', CStr ''Retail''], [CStr ''Mood'', CStr ''fine''],
                     [CStr ''INDUSTRY'', CStr ''Wholesale'']]\<rparr>"
  let ?one = "\<lparr>columns = [CStr ''Topic''], rows = [[CStr ''Industry'']]\<rparr>"
  have wf: "wf_frame ?df" by (simp add: wf_frame_def)
  have ne: "columns ?df \<noteq> []" by simp
  have wf1: "wf_frame ?one" by (simp add: wf_frame_def)
  have ne1: "columns ?one \<noteq> []" by simp
  have v: "ingest_spec ?df ''industry'' = Some ''Wholesale''"
    by (simp add: ingest_spec_def resolves_to_def row_label_def label_cell_def row_value_def
          value_cell_def ingest_eval)
  have v1: "ingest_spec ?one ''industry'' = Some []"
    by (simp add: ingest_spec_def resolves_to_def row_label_def label_cell_def row_value_def
          value_cell_def ingest_eval)
  from wf v v1 parse_uploaded_excel_policy [OF wf ne] parse_uploaded_excel_policy [OF wf1 ne1]
  show ?thesis by simp
qed

text \<open>
  C6. When \<^verbatim>\<open>read_excel\<close> raises, \<^verbatim>\<open>parse_uploaded_excel\<close> reports the error
  with \<^verbatim>\<open>st.error\<close> and returns the empty dict; and whenever it reports an error on
  a frame, the dict it returns is empty too. The function has no outcome other than a
  dict and the reported messages.
\<close>

theorem parse_uploaded_excel_error_empty:
  "parse_uploaded_excel (Inl e) = (Map.empty, [''Error processing Excel file: '' @ e]) \<and>
   (wf_frame df \<longrightarrow> snd (parse_uploaded_excel (Inr df)) \<noteq> [] \<longrightarrow>
      fst (parse_uploaded_excel (Inr df)) = Map.empty)"
proof (intro conjI impI)
  show "parse_uploaded_excel (Inl e) = (Map.empty, [''Error processing Excel file: '' @ e])"
    by (simp add: parse_uploaded_excel_def)
next
  assume "wf_frame df" and "snd (parse_uploaded_excel (Inr df)) \<noteq> []"
  then show "fst (parse_uploaded_excel (Inr df)) = Map.empty" by (rule parse_error_empty)
qed

theorem parse_uploaded_excel_error_empty_witness:
  "parse_uploaded_excel (Inl ''File is not a zip file'') =
     (Map.empty, [''Error processing Excel file: File is not a zip file'']) \<and>
   wf_frame \<lparr>columns = [], rows = [[]]\<rparr> \<and>
   snd (parse_uploaded_excel (Inr \<lparr>columns = [], rows = [[]]\<rparr>)) =
     [''Error processing Excel file: single positional indexer is out-of-bounds''] \<and>
   fst (parse_uploaded_excel (Inr \<lparr>columns = [], rows = [[]]\<rparr>)) = Map.empty"
proof -
  have wf: "wf_frame \<lparr>columns = [], rows = [[]]\<rparr>" by (simp add: wf_frame_def)
  have err: "snd (parse_uploaded_excel (Inr \<lparr>columns = [], rows = [[]]\<rparr>)) =
     [''Error processing Excel file: single positional indexer is out-of-bounds'']"
    by (simp add: parse_Inr named_columns_def iloc_def)
  from wf err
    parse_uploaded_excel_error_empty [of "''File is not a zip file''" "\<lparr>columns = [], rows = [[]]\<rparr>"]
  show ?thesis by simp
qed

text \<open>
  C4, as the code has it. On a frame with at least one column, the value that
  \<^verbatim>\<open>parse_uploaded_excel\<close> stores under a slot is a text: the \<^verbatim>\<open>str()\<close> of the
  value cell of the last row that resolves to the slot, and the empty text when the
  frame has a single column and so no value cell. The text of NaN is \<^verbatim>\<open>nan\<close>, three
  characters that trimming leaves as they are: a slot whose last row has a blank value
  cell holds \<^verbatim>\<open>nan\<close> and is among the answered keys of \<^verbatim>\<open>generate_full_report\<close>.
\<close>

theorem blank_cell_stored_as_nan:
  assumes "wf_frame df" and "columns df \<noteq> []"
    and "rows df = before @ r # after"
    and "resolves_to (columns df) slot r"
    and "list_all (\<lambda>r'. \<not> resolves_to (columns df) slot r') after"
  shows "fst (parse_uploaded_excel (Inr df)) slot =
           Some (case value_cell (columns df) r of Some c \<Rightarrow> py_str c | None \<Rightarrow> []) \<and>
         (value_cell (columns df) r = None \<longleftrightarrow> length (columns df) = 1) \<and>
         (value_cell (columns df) r = Some CNaN \<longrightarrow>
            fst (parse_uploaded_excel (Inr df)) slot = Some ''nan'' \<and>
            slot \<in> set (answered_keys (fst (parse_uploaded_excel (Inr df))))) \<and>
         py_str CNaN = ''nan'' \<and> length (py_str CNaN) = 3 \<and> strip (py_str CNaN) = ''nan''"
proof (intro conjI impI)
  from assms(5) have "filter (resolves_to (columns df) slot) after = []"
    by (simp add: filter_empty_conv list_all_iff)
  with assms(3,4) have "rev (filter (resolves_to (columns df) slot) (rows df)) =
      r # rev (filter (resolves_to (columns df) slot) before)"
    by simp
  then have "ingest_spec df slot = Some (row_value (columns df) r)"
    by (simp add: ingest_spec_def)
  with parse_frame [OF assms(1,2)]
  show stored: "fst (parse_uploaded_excel (Inr df)) slot =
      Some (case value_cell (columns df) r of Some c \<Rightarrow> py_str c | None \<Rightarrow> [])"
    by (simp add: row_value_def)
  from assms(1,3) have len: "length r = length (columns df)"
    by (simp add: wf_frame_def)
  have two: "2 \<le> length (columns df)" if "named_columns (columns df)"
  proof -
    from that have "{CStr ''Key'', CStr ''Value''} \<subseteq> set (columns df)"
      by (simp add: named_columns_def)
    then have "card {CStr ''Key'', CStr ''Value''} \<le> card (set (columns df))"
      by (intro card_mono) simp_all
    also have "\<dots> \<le> length (columns df)" by (rule card_length)
    finally show ?thesis by simp
  qed
  from assms(2) have pos: "1 \<le> length (columns df)"
    by (cases "columns df") simp_all
  show "value_cell (columns df) r = None \<longleftrightarrow> length (columns df) = 1"
  proof (cases "named_columns (columns df)")
    case True
    with two show ?thesis by (simp add: value_cell_def)
  next
    case False
    then have "value_cell (columns df) r = None \<longleftrightarrow> \<not> 1 < length (columns df)"
      by (simp add: value_cell_def len)
    with pos show ?thesis by linarith
  qed
  show "py_str CNaN = ''nan''" by simp
  show "length (py_str CNaN) = 3" by simp
  show "strip (py_str CNaN) = ''nan''" by (simp add: strip_nan)
  assume "value_cell (columns df) r = Some CNaN"
  with stored show nan: "fst (parse_uploaded_excel (Inr df)) slot = Some ''nan''"
    by simp
  then have "slot \<in> dom (fst (parse_uploaded_excel (Inr df)))" by auto
  with dom_parse have "slot \<in> fst ` set questions" by blast
  with nan show "slot \<in> set (answered_keys (fst (parse_uploaded_excel (Inr df))))"
    by (rule nan_answered)
qed

theorem blank_cell_stored_as_nan_witness:
  "fst (parse_uploaded_excel
         (Inr \<lparr>columns = [CStr ''Key'', CStr ''Value''],
               rows = [[CStr ''Industry'', CStr ''Retail''], [CStr ''INDUSTRY'', CNaN],
                       [CStr ''Mood'', CStr ''fine'']]\<rparr>))
     ''industry'' = Some ''nan'' \<and>
   ''industry'' \<in> set (answered_keys (fst (parse_uploaded_excel
         (Inr \<lparr>columns = [CStr ''Key'', CStr ''Value''],
               rows = [[CStr ''Industry'', CStr ''Retail''], [CStr ''INDUSTRY'', CNaN],
                       [CStr ''Mood'', CStr ''fine'']]\<rparr>))))"
proof -
  let ?df = "\<lparr>columns = [CStr ''Key'', CStr ''Value''],
               rows = [[CStr ''Industry'', CStr ''Retail''], [CStr ''INDUSTRY'', CNaN],
                       [CStr ''Mood'', CStr ''fine'']]\<rparr>"
  have wf: "wf_frame ?df" by (simp add: wf_frame_def)
  have ne: "columns ?df \<noteq> []" by simp
  have split: "rows ?df = [[CStr ''Industry'', CStr ''Retail'']] @ [CStr ''INDUSTRY'', CNaN] #
      [[CStr ''Mood'', CStr ''fine'']]"
    by simp
  have last: "resolves_to (columns ?df) ''industry'' [CStr ''INDUSTRY'', CNaN]"
    by (simp add: resolves_to_def row_label_def label_cell_def column_pos_def ingest_eval)
  have rest: "list_all (\<lambda>r'. \<not> resolves_to (columns ?df) ''industry'' r')
      [[CStr ''Mood'', CStr ''fine'']]"
    by (simp add: resolves_to_def row_label_def label_cell_def column_pos_def ingest_eval)
  have cell: "value_cell (columns ?df) [CStr ''INDUSTRY'', CNaN] = Some CNaN"
    by (simp add: value_cell_def named_columns_def column_pos_def)
  from cell blank_cell_stored_as_nan [OF wf ne split last rest] show ?thesis
    by simp
qed

text \<open>
  C4 as stated fails twice: the text of NaN has three characters, not four, and a
  frame with a single column stores the empty text, which is the \<^verbatim>\<open>str()\<close> of no cell
  of the frame.
\<close>

theorem stored_value_not_cell_text_counterexample:
  "py_str CNaN = ''nan'' \<and> length (py_str CNaN) = 3 \<and>
   fst (parse_uploaded_excel (Inr \<lparr>columns = [CStr ''Topic''], rows = [[CStr ''Industry'']]\<rparr>))
     ''industry'' = Some [] \<and>
   py_str (CStr ''Industry'') \<noteq> []"
  by (simp add: ingest_eval)

text \<open>
  C3. The 24 labels of the template resolve, in order, to the 24 keys of
  \<^verbatim>\<open>questions\<close>. Reading back the template with only Acme and Tech filled in gives
  a dict with all 24 keys: the two values, and the text \<^verbatim>\<open>nan\<close> under each of the
  22 slots whose cell was left blank. It is not the dict with the two entries alone.
\<close>

theorem template_round_trip_keeps_blank_cells:
  "map (\<lambda>l. predefined_keys (normalize_key l)) template_labels =
     map (\<lambda>(k, q). Some k) questions \<and>
   snd (parse_uploaded_excel (Inr filled_template)) = [] \<and>
   map (fst (parse_uploaded_excel (Inr filled_template))) (map fst questions) =
     Some ''Acme'' # Some ''Tech'' # replicate 22 (Some ''nan'') \<and>
   fst (parse_uploaded_excel (Inr filled_template)) \<noteq>
     [''company_name'' \<mapsto> ''Acme'', ''industry'' \<mapsto> ''Tech'']"
proof -
  have labels: "map (\<lambda>l. predefined_keys (normalize_key l)) template_labels =
     map (\<lambda>(k, q). Some k) questions"
    by (simp add: template_labels_def questions_def template_labels_resolve)
  have frame: "filled_template =
     \<lparr>columns = [CStr ''Key'', CStr ''Value''],
      rows =
        [[CStr ''Company Name'', CStr ''Acme''],
         [CStr ''Industry'', CStr ''Tech''],
         [CStr ''Overview'', CNaN],
         [CStr ''Governance'', CNaN],
         [CStr ''Ethics'', CNaN],
         [CStr ''Business Model'', CNaN],
         [CStr ''Strategy'', CNaN],
         [CStr ''Stakeholder Engagement'', CNaN],
         [CStr ''Materiality'', CNaN],
         [CStr ''Environmental Performance'', CNaN],
         [CStr ''Environmental Targets'', CNaN],
         [CStr ''Social Performance'', CNaN],
         [CStr ''Community Engagement'', CNaN],
         [CStr ''Labor Practices'', CNaN],
         [CStr ''Human Rights'', CNaN],
         [CStr ''Supply Chain'', CNaN],
         [CStr ''Supplier Evaluation'', CNaN],
         [CStr ''Financial Sustainability'', CNaN],
         [CStr ''Reporting Frameworks'', CNaN],
         [CStr ''Data Assurance'', CNaN],
         [CStr ''KPI'', CNaN],
         [CStr ''Future Goals'', CNaN],
         [CStr ''Innovation'', CNaN],
         [CStr ''Risk Management'', CNaN]]\<rparr>"
    by (simp add: filled_template_def template_frame_def template_labels_def replicate_22)
  have wf: "wf_frame filled_template"
    by (simp add: frame wf_frame_def)
  have "columns filled_template \<noteq> []"
    by (simp add: frame)
  with wf have "parse_uploaded_excel (Inr filled_template) = (ingest_spec filled_template, [])"
    by (rule parse_frame)
  then have run: "parse_uploaded_excel (Inr filled_template) =
     (store_rows (columns filled_template) (rows filled_template) Map.empty, [])"
    by (simp add: store_rows_empty)
  have vals: "map (fst (parse_uploaded_excel (Inr filled_template))) (map fst questions) =
     [Some ''Acme'', Some ''Tech'',
      Some ''nan'', Some ''nan'', Some ''nan'', Some ''nan'',
      Some ''nan'', Some ''nan'', Some ''nan'', Some ''nan'',
      Some ''nan'', Some ''nan'', Some ''nan'', Some ''nan'',
      Some ''nan'', Some ''nan'', Some ''nan'', Some ''nan'',
      Some ''nan'', Some ''nan'', Some ''nan'', Some ''nan'',
      Some ''nan'', Some ''nan'']"
    unfolding run
    by (simp add: frame questions_def
          store_rows_def row_label_def row_value_def label_cell_def value_cell_def
          named_columns_def column_pos_def store_def template_labels_resolve)
  then have overview: "fst (parse_uploaded_excel (Inr filled_template)) ''overview'' = Some ''nan''"
    by (simp add: questions_def)
  have differs: "fst (parse_uploaded_excel (Inr filled_template)) \<noteq>
     [''company_name'' \<mapsto> ''Acme'', ''industry'' \<mapsto> ''Tech'']"
  proof
    assume "fst (parse_uploaded_excel (Inr filled_template)) =
      [''company_name'' \<mapsto> ''Acme'', ''industry'' \<mapsto> ''Tech'']"
    then have "fst (parse_uploaded_excel (Inr filled_template)) ''overview'' =
      [''company_name'' \<mapsto> ''Acme'', ''industry'' \<mapsto> ''Tech''] ''overview''"
      by (rule arg_cong)
    with overview show False by simp
  qed
  have "replicate 22 (Some ''nan'') =
     [Some ''nan'', Some ''nan'', Some ''nan'', Some ''nan'', Some ''nan'', Some ''nan'', Some ''nan'', Some ''nan'', Some ''nan'', Some ''nan'', Some ''nan'', Some ''nan'', Some ''nan'', Some ''nan'', Some ''nan'', Some ''nan'', Some ''nan'', Some ''nan'', Some ''nan'', Some ''nan'', Some ''nan'', Some ''nan'']"
    by (simp add: replicate_22)
  with vals have "map (fst (parse_uploaded_excel (Inr filled_template))) (map fst questions) =
     Some ''Acme'' # Some ''Tech'' # replicate 22 (Some ''nan'')"
    by simp
  with labels run differs show ?thesis by simp
qed

section \<open>The progress percentage on the values that occur\<close>

text \<open>
  Two values of the floating-point model: the double nearest to one third, and a
  percentage that the rounding of the product pushes below the exact quotient.
\<close>

lemma bitlen_numeral:
  "bitlen 0 = 0"
  "bitlen (Suc 0) = Suc 0"
  "bitlen 1 = Suc 0"
  "bitlen (numeral num.One) = Suc 0"
  "bitlen (numeral (num.Bit0 k)) = Suc (bitlen (numeral k))"
  "bitlen (numeral (num.Bit1 k)) = Suc (bitlen (numeral k))"
  by (subst bitlen.simps, simp add: bitlen.simps)+

lemmas float_eval =
  progress_percent_def py_int_def float_mul_nat_def float_div_def double_of_quotient_def
  floor_log2_def round_half_even_def round_shift_def bitlen_numeral

lemma float_div_third: "float_div 1 3 = (6004799503160661, - 54)"
  by (simp add: float_eval)

lemma progress_percent_29_100: "progress_percent 29 100 = 28"
  by (simp add: float_eval)

lemma le_numeral_cases: "(c::nat) \<le> numeral k \<longleftrightarrow> c = numeral k \<or> c \<le> pred_numeral k"
  by (auto simp: numeral_eq_Suc le_Suc_eq)

text \<open>
  With at most 24 sections the percentage is the floor of the exact quotient: one lemma
  for each total, by evaluation of the model on every count.
\<close>

lemma progress_percent_total_1:
  assumes "1 \<le> c" and "c \<le> 1"
  shows "progress_percent c 1 = 100 * c div 1"
proof -
  from assms consider "c = 1"
    by (auto simp: le_numeral_cases)
  then show ?thesis
    by cases (simp_all add: float_eval)
qed

lemma progress_percent_total_2:
  assumes "1 \<le> c" and "c \<le> 2"
  shows "progress_percent c 2 = 100 * c div 2"
proof -
  from assms consider "c = 1" | "c = 2"
    by (auto simp: le_numeral_cases)
  then show ?thesis
    by cases (simp_all add: float_eval)
qed

lemma progress_percent_total_3:
  assumes "1 \<le> c" and "c \<le> 3"
  shows "progress_percent c 3 = 100 * c div 3"
proof -
  from assms consider "c = 1" | "c = 2" | "c = 3"
    by (auto simp: le_numeral_cases)
  then show ?thesis
    by cases (simp_all add: float_eval)
qed

lemma progress_percent_total_4:
  assumes "1 \<le> c" and "c \<le> 4"
  shows "progress_percent c 4 = 100 * c div 4"
proof -
  from assms consider "c = 1" | "c = 2" | "c = 3" | "c = 4"
    by (auto simp: le_numeral_cases)
  then show ?thesis
    by cases (simp_all add: float_eval)
qed

lemma progress_percent_total_5:
  assumes "1 \<le> c" and "c \<le> 5"
  shows "progress_percent c 5 = 100 * c div 5"
proof -
  from assms consider "c = 1" | "c = 2" | "c = 3" | "c = 4" | "c = 5"
    by (auto simp: le_numeral_cases)
  then show ?thesis
    by cases (simp_all add: float_eval)
qed

lemma progress_percent_total_6:
  assumes "1 \<le> c" and "c \<le> 6"
  shows "progress_percent c 6 = 100 * c div 6"
proof -
  from assms consider "c = 1" | "c = 2" | "c = 3" | "c = 4" | "c = 5" | "c = 6"
    by (auto simp: le_numeral_cases)
  then show ?thesis
    by cases (simp_all add: float_eval)
qed

lemma progress_percent_total_7:
  assumes "1 \<le> c" and "c \<le> 7"
  shows "progress_percent c 7 = 100 * c div 7"
proof -
  from assms consider "c = 1" | "c = 2" | "c = 3" | "c = 4" | "c = 5" | "c = 6" | "c = 7"
    by (auto simp: le_numeral_cases)
  then show ?thesis
    by cases (simp_all add: float_eval)
qed

lemma progress_percent_total_8:
  assumes "1 \<le> c" and "c \<le> 8"
  shows "progress_percent c 8 = 100 * c div 8"
proof -
  from assms consider "c = 1" | "c = 2" | "c = 3" | "c = 4" | "c = 5" | "c = 6" | "c = 7" | "c = 8"
    by (auto simp: le_numeral_cases)
  then show ?thesis
    by cases (simp_all add: float_eval)
qed

lemma progress_percent_total_9:
  assumes "1 \<le> c" and "c \<le> 9"
  shows "progress_percent c 9 = 100 * c div 9"
proof -
  from assms consider "c = 1" | "c = 2" | "c = 3" | "c = 4" | "c = 5" | "c = 6" | "c = 7" | "c = 8" | "c = 9"
    by (auto simp: le_numeral_cases)
  then show ?thesis
    by cases (simp_all add: float_eval)
qed

lemma progress_percent_total_10:
  assumes "1 \<le> c" and "c \<le> 10"
  shows "progress_percent c 10 = 100 * c div 10"
proof -
  from assms consider "c = 1" | "c = 2" | "c = 3" | "c = 4" | "c = 5" | "c = 6" | "c = 7" | "c = 8" | "c = 9" | "c = 10"
    by (auto simp: le_numeral_cases)
  then show ?thesis
    by cases (simp_all add: float_eval)
qed

lemma progress_percent_total_11:
  assumes "1 \<le> c" and "c \<le> 11"
  shows "progress_percent c 11 = 100 * c div 11"
proof -
  from assms consider "c = 1" | "c = 2" | "c = 3" | "c = 4" | "c = 5" | "c = 6" | "c = 7" | "c = 8" | "c = 9" | "c = 10" | "c = 11"
    by (auto simp: le_numeral_cases)
  then show ?thesis
    by cases (simp_all add: float_eval)
qed

lemma progress_percent_total_12:
  assumes "1 \<le> c" and "c \<le> 12"
  shows "progress_percent c 12 = 100 * c div 12"
proof -
  from assms consider "c = 1" | "c = 2" | "c = 3" | "c = 4" | "c = 5" | "c = 6" | "c = 7" | "c = 8" | "c = 9" | "c = 10" | "c = 11" | "c = 12"
    by (auto simp: le_numeral_cases)
  then show ?thesis
    by cases (simp_all add: float_eval)
qed

lemma progress_percent_total_13:
  assumes "1 \<le> c" and "c \<le> 13"
  shows "progress_percent c 13 = 100 * c div 13"
proof -
  from assms consider "c = 1" | "c = 2" | "c = 3" | "c = 4" | "c = 5" | "c = 6" | "c = 7" | "c = 8" | "c = 9" | "c = 10" | "c = 11" | "c = 12" | "c = 13"
    by (auto simp: le_numeral_cases)
  then show ?thesis
    by cases (simp_all add: float_eval)
qed

lemma progress_percent_total_14:
  assumes "1 \<le> c" and "c \<le> 14"
  shows "progress_percent c 14 = 100 * c div 14"
proof -
  from assms consider "c = 1" | "c = 2" | "c = 3" | "c = 4" | "c = 5" | "c = 6" | "c = 7" | "c = 8" | "c = 9" | "c = 10" | "c = 11" | "c = 12" | "c = 13" | "c = 14"
    by (auto simp: le_numeral_cases)
  then show ?thesis
    by cases (simp_all add: float_eval)
qed

lemma progress_percent_total_15:
  assumes "1 \<le> c" and "c \<le> 15"
  shows "progress_percent c 15 = 100 * c div 15"
proof -
  from assms consider "c = 1" | "c = 2" | "c = 3" | "c = 4" | "c = 5" | "c = 6" | "c = 7" | "c = 8" | "c = 9" | "c = 10" | "c = 11" | "c = 12" | "c = 13" | "c = 14" | "c = 15"
    by (auto simp: le_numeral_cases)
  then show ?thesis
    by cases (simp_all add: float_eval)
qed

lemma progress_percent_total_16:
  assumes "1 \<le> c" and "c \<le> 16"
  shows "progress_percent c 16 = 100 * c div 16"
proof -
  from assms consider "c = 1" | "c = 2" | "c = 3" | "c = 4" | "c = 5" | "c = 6" | "c = 7" | "c = 8" | "c = 9" | "c = 10" | "c = 11" | "c = 12" | "c = 13" | "c = 14" | "c = 15" | "c = 16"
    by (auto simp: le_numeral_cases)
  then show ?thesis
    by cases (simp_all add: float_eval)
qed

lemma progress_percent_total_17:
  assumes "1 \<le> c" and "c \<le> 17"
  shows "progress_percent c 17 = 100 * c div 17"
proof -
  from assms consider "c = 1" | "c = 2" | "c = 3" | "c = 4" | "c = 5" | "c = 6" | "c = 7" | "c = 8" | "c = 9" | "c = 10" | "c = 11" | "c = 12" | "c = 13" | "c = 14" | "c = 15" | "c = 16" | "c = 17"
    by (auto simp: le_numeral_cases)
  then show ?thesis
    by cases (simp_all add: float_eval)
qed

lemma progress_percent_total_18:
  assumes "1 \<le> c" and "c \<le> 18"
  shows "progress_percent c 18 = 100 * c div 18"
proof -
  from assms consider "c = 1" | "c = 2" | "c = 3" | "c = 4" | "c = 5" | "c = 6" | "c = 7" | "c = 8" | "c = 9" | "c = 10" | "c = 11" | "c = 12" | "c = 13" | "c = 14" | "c = 15" | "c = 16" | "c = 17" | "c = 18"
    by (auto simp: le_numeral_cases)
  then show ?thesis
    by cases (simp_all add: float_eval)
qed

lemma progress_percent_total_19:
  assumes "1 \<le> c" and "c \<le> 19"
  shows "progress_percent c 19 = 100 * c div 19"
proof -
  from assms consider "c = 1" | "c = 2" | "c = 3" | "c = 4" | "c = 5" | "c = 6" | "c = 7" | "c = 8" | "c = 9" | "c = 10" | "c = 11" | "c = 12" | "c = 13" | "c = 14" | "c = 15" | "c = 16" | "c = 17" | "c = 18" | "c = 19"
    by (auto simp: le_numeral_cases)
  then show ?thesis
    by cases (simp_all add: float_eval)
qed

lemma progress_percent_total_20:
  assumes "1 \<le> c" and "c \<le> 20"
  shows "progress_percent c 20 = 100 * c div 20"
proof -
  from assms consider "c = 1" | "c = 2" | "c = 3" | "c = 4" | "c = 5" | "c = 6" | "c = 7" | "c = 8" | "c = 9" | "c = 10" | "c = 11" | "c = 12" | "c = 13" | "c = 14" | "c = 15" | "c = 16" | "c = 17" | "c = 18" | "c = 19" | "c = 20"
    by (auto simp: le_numeral_cases)
  then show ?thesis
    by cases (simp_all add: float_eval)
qed

lemma progress_percent_total_21:
  assumes "1 \<le> c" and "c \<le> 21"
  shows "progress_percent c 21 = 100 * c div 21"
proof -
  from assms consider "c = 1" | "c = 2" | "c = 3" | "c = 4" | "c = 5" | "c = 6" | "c = 7" | "c = 8" | "c = 9" | "c = 10" | "c = 11" | "c = 12" | "c = 13" | "c = 14" | "c = 15" | "c = 16" | "c = 17" | "c = 18" | "c = 19" | "c = 20" | "c = 21"
    by (auto simp: le_numeral_cases)
  then show ?thesis
    by cases (simp_all add: float_eval)
qed

lemma progress_percent_total_22:
  assumes "1 \<le> c" and "c \<le> 22"
  shows "progress_percent c 22 = 100 * c div 22"
proof -
  from assms consider "c = 1" | "c = 2" | "c = 3" | "c = 4" | "c = 5" | "c = 6" | "c = 7" | "c = 8" | "c = 9" | "c = 10" | "c = 11" | "c = 12" | "c = 13" | "c = 14" | "c = 15" | "c = 16" | "c = 17" | "c = 18" | "c = 19" | "c = 20" | "c = 21" | "c = 22"
    by (auto simp: le_numeral_cases)
  then show ?thesis
    by cases (simp_all add: float_eval)
qed

lemma progress_percent_total_23:
  assumes "1 \<le> c" and "c \<le> 23"
  shows "progress_percent c 23 = 100 * c div 23"
proof -
  from assms consider "c = 1" | "c = 2" | "c = 3" | "c = 4" | "c = 5" | "c = 6" | "c = 7" | "c = 8" | "c = 9" | "c = 10" | "c = 11" | "c = 12" | "c = 13" | "c = 14" | "c = 15" | "c = 16" | "c = 17" | "c = 18" | "c = 19" | "c = 20" | "c = 21" | "c = 22" | "c = 23"
    by (auto simp: le_numeral_cases)
  then show ?thesis
    by cases (simp_all add: float_eval)
qed

lemma progress_percent_total_24:
  assumes "1 \<le> c" and "c \<le> 24"
  shows "progress_percent c 24 = 100 * c div 24"
proof -
  from assms consider "c = 1" | "c = 2" | "c = 3" | "c = 4" | "c = 5" | "c = 6" | "c = 7" | "c = 8" | "c = 9" | "c = 10" | "c = 11" | "c = 12" | "c = 13" | "c = 14" | "c = 15" | "c = 16" | "c = 17" | "c = 18" | "c = 19" | "c = 20" | "c = 21" | "c = 22" | "c = 23" | "c = 24"
    by (auto simp: le_numeral_cases)
  then show ?thesis
    by cases (simp_all add: float_eval)
qed

lemma progress_percent_floor:
  assumes "1 \<le> c" and "c \<le> t" and "t \<le> 24"
  shows "progress_percent c t = 100 * c div t"
proof -
  from assms consider "t = 1" | "t = 2" | "t = 3" | "t = 4" | "t = 5" | "t = 6" | "t = 7" | "t = 8" | "t = 9" | "t = 10" | "t = 11" | "t = 12" | "t = 13" | "t = 14" | "t = 15" | "t = 16" | "t = 17" | "t = 18" | "t = 19" | "t = 20" | "t = 21" | "t = 22" | "t = 23" | "t = 24"
    by (auto simp: le_numeral_cases)
  then show ?thesis
  proof cases
    case 1
    with assms progress_percent_total_1 [of c] show ?thesis by simp
  next
    case 2
    with assms progress_percent_total_2 [of c] show ?thesis by simp
  next
    case 3
    with assms progress_percent_total_3 [of c] show ?thesis by simp
  next
    case 4
    with assms progress_percent_total_4 [of c] show ?thesis by simp
  next
    case 5
    with assms progress_percent_total_5 [of c] show ?thesis by simp
  next
    case 6
    with assms progress_percent_total_6 [of c] show ?thesis by simp
  next
    case 7
    with assms progress_percent_total_7 [of c] show ?thesis by simp
  next
    case 8
    with assms progress_percent_total_8 [of c] show ?thesis by simp
  next
    case 9
    with assms progress_percent_total_9 [of c] show ?thesis by simp
  next
    case 10
    with assms progress_percent_total_10 [of c] show ?thesis by simp
  next
    case 11
    with assms progress_percent_total_11 [of c] show ?thesis by simp
  next
    case 12
    with assms progress_percent_total_12 [of c] show ?thesis by simp
  next
    case 13
    with assms progress_percent_total_13 [of c] show ?thesis by simp
  next
    case 14
    with assms progress_percent_total_14 [of c] show ?thesis by simp
  next
    case 15
    with assms progress_percent_total_15 [of c] show ?thesis by simp
  next
    case 16
    with assms progress_percent_total_16 [of c] show ?thesis by simp
  next
    case 17
    with assms progress_percent_total_17 [of c] show ?thesis by simp
  next
    case 18
    with assms progress_percent_total_18 [of c] show ?thesis by simp
  next
    case 19
    with assms progress_percent_total_19 [of c] show ?thesis by simp
  next
    case 20
    with assms progress_percent_total_20 [of c] show ?thesis by simp
  next
    case 21
    with assms progress_percent_total_21 [of c] show ?thesis by simp
  next
    case 22
    with assms progress_percent_total_22 [of c] show ?thesis by simp
  next
    case 23
    with assms progress_percent_total_23 [of c] show ?thesis by simp
  next
    case 24
    with assms progress_percent_total_24 [of c] show ?thesis by simp
  qed
qed

section \<open>Generation: the loop\<close>

lemma generate_section_outcome:
  "generate_section call key question_text answer standard =
     (section_text (call (section_prompt question_text answer standard)),
      failure_messages (call (section_prompt question_text answer standard)))"
  by (cases "call (section_prompt question_text answer standard)")
     (simp_all add: generate_section_def)

lemma outcomes_Nil: "outcomes llm [] = []"
  by (simp add: outcomes_def)

lemma enumerate_shift: "map (\<lambda>(i, p). f i p) (enumerate (Suc n) ps) = map (\<lambda>(i, p). f (Suc i) p) (enumerate n ps)"
  by (induction ps arbitrary: n) simp_all

text \<open>The outcomes of the calls made from a state that has already made \<open>n\<close> calls.\<close>

lemma report_loop_calls:
  "calls (report_loop llm rd std tot qs s) = calls s @ prompts_for rd std qs"
  by (induction qs arbitrary: s)
     (auto simp: prompts_for_def Let_def generate_section_outcome)

lemma report_loop_completed:
  "completed (report_loop llm rd std tot qs s) = completed s + length (prompts_for rd std qs)"
  by (induction qs arbitrary: s)
     (auto simp: prompts_for_def Let_def generate_section_outcome)

lemma report_loop_full_report:
  "full_report (report_loop llm rd std tot qs s) =
     full_report s @
     concat (map heading_block
       (map (\<lambda>(i, p). llm i p) (enumerate (length (calls s)) (prompts_for rd std qs))))"
  by (induction qs arbitrary: s)
     (auto simp: prompts_for_def Let_def generate_section_outcome heading_block_def)

lemma error_messages_append:
  "error_messages (es @ fs) = error_messages es @ error_messages fs"
  by (induction es rule: error_messages.induct) simp_all

lemma progress_values_append:
  "progress_values (es @ fs) = progress_values es @ progress_values fs"
  by (induction es rule: progress_values.induct) simp_all

lemma error_messages_map_Error: "error_messages (map Error ms) = ms"
  by (induction ms) simp_all

lemma progress_values_map_Error: "progress_values (map Error ms) = []"
  by (induction ms) simp_all

lemma report_loop_errors:
  "error_messages (ui (report_loop llm rd std tot qs s)) =
     error_messages (ui s) @
     concat (map failure_messages
       (map (\<lambda>(i, p). llm i p) (enumerate (length (calls s)) (prompts_for rd std qs))))"
  by (induction qs arbitrary: s)
     (auto simp: prompts_for_def Let_def generate_section_outcome error_messages_append
        error_messages_map_Error)

lemma upt_first: "[a ..< a + Suc n] = a # [Suc a ..< Suc a + n]"
  by (simp add: upt_conv_Cons)

lemma report_loop_progress:
  "progress_values (ui (report_loop llm rd std tot qs s)) =
     progress_values (ui s) @
     map (\<lambda>c. progress_percent c tot)
       [Suc (completed s) ..< Suc (completed s) + length (prompts_for rd std qs)]"
proof (induction qs arbitrary: s)
  case Nil
  show ?case by (simp add: prompts_for_def)
next
  case (Cons kq qs)
  obtain key question_text where kq: "kq = (key, question_text)" by (cases kq)
  let ?n = "length (prompts_for rd std qs)"
  show ?case
  proof (cases "strip (dict_get rd key) \<noteq> []")
    case True
    let ?o = "llm (length (calls s)) (section_prompt question_text (dict_get rd key) std)"
    let ?s' = "\<lparr>full_report = full_report s @ ''# '' @ section_text ?o @ ''\<newline>\<newline>'',
                completed = completed s + 1,
                ui = ui s @ map Error (failure_messages ?o) @
                       [Progress (progress_percent (completed s + 1) tot)],
                calls = calls s @ [section_prompt question_text (dict_get rd key) std]\<rparr>"
    from True have step: "report_loop llm rd std tot (kq # qs) s = report_loop llm rd std tot qs ?s'"
      by (simp add: kq Let_def generate_section_outcome)
    from True have len: "length (prompts_for rd std (kq # qs)) = Suc ?n"
      by (simp add: kq prompts_for_def)
    have before: "progress_values (ui ?s') =
        progress_values (ui s) @ [progress_percent (Suc (completed s)) tot]"
      by (simp add: progress_values_append progress_values_map_Error)
    have "progress_values (ui (report_loop llm rd std tot qs ?s')) =
        progress_values (ui ?s') @
        map (\<lambda>c. progress_percent c tot) [Suc (completed ?s') ..< Suc (completed ?s') + ?n]"
      by (rule Cons.IH)
    also have "\<dots> = progress_values (ui s) @
        map (\<lambda>c. progress_percent c tot)
          (Suc (completed s) # [Suc (Suc (completed s)) ..< Suc (Suc (completed s)) + ?n])"
      by (simp only: before) simp
    also have "\<dots> = progress_values (ui s) @
        map (\<lambda>c. progress_percent c tot) [Suc (completed s) ..< Suc (completed s) + Suc ?n]"
      by (simp only: upt_first)
    finally show ?thesis by (simp only: step len)
  next
    case False
    then have p: "prompts_for rd std (kq # qs) = prompts_for rd std qs"
      by (simp add: kq prompts_for_def)
    from False have step: "report_loop llm rd std tot (kq # qs) s = report_loop llm rd std tot qs s"
      by (simp add: kq Let_def)
    show ?thesis by (simp only: step p Cons.IH)
  qed
qed

lemma length_section_prompts:
  "length (section_prompts rd std) = length (answered_keys rd)"
  by (simp add: section_prompts_def prompts_for_def answered_keys_def answered_def)

lemma length_questions: "length questions = 24"
  by (simp add: questions_def)

lemma total_le_24: "length (answered_keys rd) \<le> 24"
proof -
  have "length (answered_keys rd) \<le> length questions"
    by (simp add: answered_keys_def answered_def)
  then show ?thesis by (simp add: length_questions)
qed

lemma run_calls: "calls (generate_full_report llm rd std) = section_prompts rd std"
proof (cases "length (answered_keys rd) = 0")
  case True
  with length_section_prompts [of rd std] show ?thesis
    by (simp add: generate_full_report_def)
next
  case False
  then show ?thesis
    by (simp add: generate_full_report_def report_loop_calls section_prompts_def)
qed

lemma run_full_report:
  "full_report (generate_full_report llm rd std) =
     concat (map heading_block (outcomes llm (section_prompts rd std)))"
proof (cases "length (answered_keys rd) = 0")
  case True
  with length_section_prompts [of rd std] show ?thesis
    by (simp add: generate_full_report_def outcomes_Nil)
next
  case False
  then show ?thesis
    by (simp add: generate_full_report_def report_loop_full_report section_prompts_def
          outcomes_def)
qed

lemma run_errors:
  "error_messages (ui (generate_full_report llm rd std)) =
     (if answered_keys rd = [] then [''No responses provided.'']
      else concat (map failure_messages (outcomes llm (section_prompts rd std))))"
  by (simp add: generate_full_report_def report_loop_errors section_prompts_def outcomes_def)

lemma run_completed:
  "completed (generate_full_report llm rd std) = length (answered_keys rd)"
proof (cases "length (answered_keys rd) = 0")
  case True
  then show ?thesis by (simp add: generate_full_report_def)
next
  case False
  with length_section_prompts [of rd std] show ?thesis
    by (simp add: generate_full_report_def report_loop_completed section_prompts_def)
qed

lemma run_progress_raw:
  assumes "0 < length (answered_keys rd)"
  shows "progress_values (ui (generate_full_report llm rd std)) =
     0 # map (\<lambda>c. progress_percent c (length (answered_keys rd)))
           [1 ..< length (answered_keys rd) + 1]"
  using assms length_section_prompts [of rd std]
  by (simp add: generate_full_report_def report_loop_progress section_prompts_def)

lemma run_progress:
  assumes "0 < length (answered_keys rd)"
  shows "progress_values (ui (generate_full_report llm rd std)) =
     0 # map (\<lambda>c. 100 * c div length (answered_keys rd)) [1 ..< length (answered_keys rd) + 1]"
proof -
  let ?t = "length (answered_keys rd)"
  have "map (\<lambda>c. progress_percent c ?t) [1 ..< ?t + 1] = map (\<lambda>c. 100 * c div ?t) [1 ..< ?t + 1]"
  proof (rule map_cong [OF refl])
    fix c
    assume "c \<in> set [1 ..< ?t + 1]"
    then have "1 \<le> c" and "c \<le> ?t" by auto
    then show "progress_percent c ?t = 100 * c div ?t"
      using total_le_24 [of rd] by (rule progress_percent_floor)
  qed
  with run_progress_raw [OF assms, of llm std] show ?thesis by (simp only:)
qed

lemma sorted_percentages: "sorted (map (\<lambda>c. 100 * c div t) [a ..< b])"
proof -
  have "sorted_wrt (\<lambda>x y. 100 * x div t \<le> 100 * y div t) [a ..< b]"
    by (rule sorted_wrt_mono_rel [of _ "(\<le>)"]) (simp_all add: div_le_mono)
  then show ?thesis by (simp add: sorted_map)
qed

section \<open>Generation: the claims\<close>

text \<open>
  C7. When no slot of the questionnaire has an answer that is non-empty after trimming,
  \<^verbatim>\<open>generate_full_report\<close> shows the error box "No responses provided.", sends
  nothing to the service, creates no progress bar and returns the empty text.
\<close>

theorem no_answers_no_report:
  assumes "\<forall>(key, question_text)\<in>set questions. strip (dict_get report_data key) = []"
  shows "generate_full_report llm report_data standard =
     \<lparr>full_report = [], completed = 0, ui = [Error ''No responses provided.''], calls = []\<rparr>"
proof -
  from assms have "answered report_data = []"
    by (auto simp: answered_def filter_empty_conv)
  then show ?thesis
    by (simp add: generate_full_report_def answered_keys_def)
qed

theorem no_answers_no_report_witness:
  "generate_full_report (\<lambda>i p. Inr ''Body'') [''company_name'' \<mapsto> '' ''] ''GRI'' =
     \<lparr>full_report = [], completed = 0, ui = [Error ''No responses provided.''], calls = []\<rparr>"
proof -
  have h: "\<forall>(key, question_text)\<in>set questions.
      strip (dict_get [''company_name'' \<mapsto> '' ''] key) = []"
    by (simp add: questions_def dict_get_def strip_def py_isspace_def)
  from no_answers_no_report [OF h, of "\<lambda>i p. Inr ''Body''" "''GRI''"] show ?thesis .
qed

text \<open>
  C1, as the code has it. The run sends the prompt of every answered slot to the
  service, in questionnaire order, whatever the earlier calls did, and always returns.
  Each call contributes one heading block to the text: the marker and the content when
  the call succeeded, and for a failed call the marker with no content, followed by the
  blank line. A failed call also shows one error box. So the text has a heading block
  for every answered slot, the failed one included.
\<close>

theorem failed_call_leaves_empty_heading:
  "calls (generate_full_report llm rd std) = section_prompts rd std \<and>
   length (section_prompts rd std) = length (answered_keys rd) \<and>
   full_report (generate_full_report llm rd std) =
     concat (map heading_block (outcomes llm (section_prompts rd std))) \<and>
   error_messages (ui (generate_full_report llm rd std)) =
     (if answered_keys rd = [] then [''No responses provided.'']
      else concat (map failure_messages (outcomes llm (section_prompts rd std)))) \<and>
   heading_block (Inr content) = ''# '' @ content @ ''\<newline>\<newline>'' \<and>
   heading_block (Inl e) = ''# \<newline>\<newline>''"
  by (simp add: run_calls length_section_prompts run_full_report run_errors heading_block_def)

theorem failed_call_leaves_empty_heading_witness:
  "full_report (generate_full_report (\<lambda>i p. if i = 0 then Inl ''quota'' else Inr ''Body'')
        [''company_name'' \<mapsto> ''Acme'', ''industry'' \<mapsto> ''Tech''] ''GRI'') =
     ''# \<newline>\<newline># Body\<newline>\<newline>'' \<and>
   error_messages (ui (generate_full_report (\<lambda>i p. if i = 0 then Inl ''quota'' else Inr ''Body'')
        [''company_name'' \<mapsto> ''Acme'', ''industry'' \<mapsto> ''Tech''] ''GRI'')) =
     [''An error occurred during report generation: quota''] \<and>
   length (calls (generate_full_report (\<lambda>i p. if i = 0 then Inl ''quota'' else Inr ''Body'')
        [''company_name'' \<mapsto> ''Acme'', ''industry'' \<mapsto> ''Tech''] ''GRI'')) = 2"
proof -
  let ?rd = "[''company_name'' \<mapsto> ''Acme'', ''industry'' \<mapsto> ''Tech'']"
  have p: "section_prompts ?rd ''GRI'' =
     [section_prompt ''What is the name of your company?'' ''Acme'' ''GRI'',
      section_prompt ''What industry does your company operate in?'' ''Tech'' ''GRI'']"
    by (simp add: section_prompts_def prompts_for_def questions_def dict_get_def strip_def
          py_isspace_def)
  have k: "answered_keys ?rd \<noteq> []"
    using length_section_prompts [of ?rd "''GRI''"] unfolding p by auto
  from failed_call_leaves_empty_heading
         [of "\<lambda>i p. if i = 0 then Inl ''quota'' else Inr ''Body''" ?rd "''GRI''"]
  show ?thesis
    unfolding p by (simp add: k outcomes_def heading_block_def)
qed

text \<open>
  C1 as stated fails: with two answered slots and a service whose second call raises,
  the text holds a second heading block, for the failed slot.
\<close>

theorem failed_call_no_text_counterexample:
  "outcomes (\<lambda>i p. if i = 1 then Inl ''timeout'' else Inr ''Body'')
     (calls (generate_full_report (\<lambda>i p. if i = 1 then Inl ''timeout'' else Inr ''Body'')
        [''company_name'' \<mapsto> ''Acme'', ''industry'' \<mapsto> ''Tech''] ''GRI'')) =
     [Inr ''Body'', Inl ''timeout''] \<and>
   full_report (generate_full_report (\<lambda>i p. if i = 1 then Inl ''timeout'' else Inr ''Body'')
        [''company_name'' \<mapsto> ''Acme'', ''industry'' \<mapsto> ''Tech''] ''GRI'') =
     ''# Body\<newline>\<newline># \<newline>\<newline>'' \<and>
   full_report (generate_full_report (\<lambda>i p. if i = 1 then Inl ''timeout'' else Inr ''Body'')
        [''company_name'' \<mapsto> ''Acme'', ''industry'' \<mapsto> ''Tech''] ''GRI'') \<noteq>
     ''# Body\<newline>\<newline>''"
  by (simp add: run_calls run_full_report section_prompts_def prompts_for_def questions_def
        dict_get_def strip_def py_isspace_def outcomes_def heading_block_def)

text \<open>
  C2, as the code has it. The counter is incremented after every call to the service,
  whether the call succeeded or not, and ends at the number of answered slots. The bar
  is created at 0 and updated after each call; the update after the \<open>c\<close>-th call shows
  the floor of \<open>100 * c / total\<close>. The values shown never decrease, and with at least
  one answered slot the last one is 100.
\<close>

theorem progress_reporting:
  "completed (generate_full_report llm rd std) = length (calls (generate_full_report llm rd std)) \<and>
   completed (generate_full_report llm rd std) = length (answered_keys rd) \<and>
   (0 < length (answered_keys rd) \<longrightarrow>
      progress_values (ui (generate_full_report llm rd std)) =
        0 # map (\<lambda>c. 100 * c div length (answered_keys rd)) [1 ..< length (answered_keys rd) + 1] \<and>
      last (progress_values (ui (generate_full_report llm rd std))) = 100) \<and>
   sorted (progress_values (ui (generate_full_report llm rd std)))"
proof (intro conjI impI)
  show "completed (generate_full_report llm rd std) = length (calls (generate_full_report llm rd std))"
    by (simp add: run_completed run_calls length_section_prompts)
  show "completed (generate_full_report llm rd std) = length (answered_keys rd)"
    by (rule run_completed)
  show "sorted (progress_values (ui (generate_full_report llm rd std)))"
  proof (cases "0 < length (answered_keys rd)")
    case True
    then show ?thesis
      by (simp add: run_progress sorted_percentages del: upt_Suc)
  next
    case False
    then show ?thesis by (simp add: generate_full_report_def)
  qed
next
  assume pos: "0 < length (answered_keys rd)"
  then show vals: "progress_values (ui (generate_full_report llm rd std)) =
        0 # map (\<lambda>c. 100 * c div length (answered_keys rd)) [1 ..< length (answered_keys rd) + 1]"
    by (rule run_progress)
  from pos show "last (progress_values (ui (generate_full_report llm rd std))) = 100"
    by (simp add: vals last_map Suc_le_eq)
qed

theorem progress_reporting_witness:
  "0 < length (answered_keys [''company_name'' \<mapsto> ''Acme'', ''industry'' \<mapsto> ''Tech'',
         ''overview'' \<mapsto> ''Software'']) \<and>
   completed (generate_full_report (\<lambda>i p. Inr ''Body'')
       [''company_name'' \<mapsto> ''Acme'', ''industry'' \<mapsto> ''Tech'', ''overview'' \<mapsto> ''Software'']
       ''GRI'') = 3 \<and>
   progress_values (ui (generate_full_report (\<lambda>i p. Inr ''Body'')
       [''company_name'' \<mapsto> ''Acme'', ''industry'' \<mapsto> ''Tech'', ''overview'' \<mapsto> ''Software'']
       ''GRI'')) = [0, 33, 66, 100]"
proof -
  have n: "length (answered_keys [''company_name'' \<mapsto> ''Acme'', ''industry'' \<mapsto> ''Tech'',
         ''overview'' \<mapsto> ''Software'']) = 3"
    by (simp add: answered_keys_def answered_def questions_def dict_get_def strip_def
          py_isspace_def)
  have u: "[1 ..< 3 + 1] = [1, 2, 3::nat]"
    by (simp add: upt_rec)
  from progress_reporting [of "\<lambda>i p. Inr ''Body''"
      "[''company_name'' \<mapsto> ''Acme'', ''industry'' \<mapsto> ''Tech'', ''overview'' \<mapsto> ''Software'']"
      "''GRI''"]
  show ?thesis unfolding n u by simp
qed

text \<open>
  C2 as stated fails in its first part: with one answered slot and a service that always
  raises, no call succeeds, yet the counter ends at 1 and the bar at 100.
\<close>

theorem completed_counts_failures_counterexample:
  "filter succeeded (outcomes (\<lambda>i p. Inl ''timeout'')
     (calls (generate_full_report (\<lambda>i p. Inl ''timeout'') [''company_name'' \<mapsto> ''Acme''] ''GRI''))) = [] \<and>
   completed (generate_full_report (\<lambda>i p. Inl ''timeout'') [''company_name'' \<mapsto> ''Acme''] ''GRI'') = 1 \<and>
   progress_values (ui (generate_full_report (\<lambda>i p. Inl ''timeout'') [''company_name'' \<mapsto> ''Acme''] ''GRI'')) =
     [0, 100]"
proof -
  have n: "length (answered_keys [''company_name'' \<mapsto> ''Acme'']) = 1"
    by (simp add: answered_keys_def answered_def questions_def dict_get_def strip_def
          py_isspace_def)
  have c: "calls (generate_full_report (\<lambda>i p. Inl ''timeout'') [''company_name'' \<mapsto> ''Acme''] ''GRI'') =
     [section_prompt ''What is the name of your company?'' ''Acme'' ''GRI'']"
    by (simp add: run_calls section_prompts_def prompts_for_def questions_def
        dict_get_def strip_def py_isspace_def)
  have p: "progress_values (ui (generate_full_report (\<lambda>i p. Inl ''timeout'') [''company_name'' \<mapsto> ''Acme''] ''GRI'')) =
     [0, 100]"
    using run_progress [of "[''company_name'' \<mapsto> ''Acme'']" "\<lambda>i p. Inl ''timeout''" "''GRI''"]
    unfolding n by simp
  show ?thesis
    by (simp add: c p run_completed n outcomes_def)
qed

section \<open>Compliance evaluation: the claim\<close>

text \<open>
  C5, as the code has it. When the service returns a response and decoding it raises or
  gives a value that is not a dict, \<^verbatim>\<open>measure_compliance\<close> returns the fallback dict:
  no score, empty weaknesses and recommendations, and under strengths the response
  with the white space at its two ends removed, which is the text that was handed to
  the decoder.
\<close>

theorem compliance_fallback:
  assumes "llm (compliance_prompt report_text standard) = Inr content"
    and "(\<exists>e. json_loads (strip content) = Inl e) \<or>
         (\<exists>data. json_loads (strip content) = Inr data \<and> \<not> is_dict data)"
  shows "measure_compliance llm json_loads report_text standard =
     Inr (JDict [(''score'', JNull), (''strengths'', JStr (strip content)),
                 (''weaknesses'', JStr []), (''recommendations'', JStr [])])"
  using assms by (auto simp: measure_compliance_def fallback_def Let_def)

theorem compliance_fallback_witness:
  "strip ''not json at all'' = ''not json at all'' \<and>
   measure_compliance (\<lambda>prompt. Inr ''not json at all'')
       (\<lambda>text. Inl ''Expecting value: line 1 column 1 (char 0)'') ''# Body'' ''GRI'' =
     Inr (JDict [(''score'', JNull), (''strengths'', JStr ''not json at all''),
                 (''weaknesses'', JStr []), (''recommendations'', JStr [])]) \<and>
   measure_compliance (\<lambda>prompt. Inr ''[1, 2]'')
       (\<lambda>text. Inr (JList [JNum ''1'', JNum ''2''])) ''# Body'' ''GRI'' =
     Inr (JDict [(''score'', JNull), (''strengths'', JStr ''[1, 2]''),
                 (''weaknesses'', JStr []), (''recommendations'', JStr [])])"
proof -
  have s1: "strip ''not json at all'' = ''not json at all''"
    by (simp add: strip_def py_isspace_def)
  have s2: "strip ''[1, 2]'' = ''[1, 2]''"
    by (simp add: strip_def py_isspace_def)
  from s1 s2
    compliance_fallback [of "\<lambda>prompt. Inr ''not json at all''" "''# Body''" "''GRI''"
      "''not json at all''" "\<lambda>text. Inl ''Expecting value: line 1 column 1 (char 0)''"]
    compliance_fallback [of "\<lambda>prompt. Inr ''[1, 2]''" "''# Body''" "''GRI''"
      "''[1, 2]''" "\<lambda>text. Inr (JList [JNum ''1'', JNum ''2''])"]
  show ?thesis by simp
qed

text \<open>
  C5 as stated fails: for a response with white space around it, the text under
  strengths is not the whole response.
\<close>

theorem compliance_fallback_raw_text_counterexample:
  "measure_compliance (\<lambda>prompt. Inr '' not json at all\<newline>'')
       (\<lambda>text. Inl ''Expecting value: line 1 column 1 (char 0)'') ''# Body'' ''GRI'' =
     Inr (JDict [(''score'', JNull), (''strengths'', JStr ''not json at all''),
                 (''weaknesses'', JStr []), (''recommendations'', JStr [])]) \<and>
   ''not json at all'' \<noteq> '' not json at all\<newline>''"
  by (simp add: measure_compliance_def fallback_def strip_def py_isspace_def)

section \<open>The PDF writer: the claim\<close>

lemma sanitize_page_map:
  "sanitize_page p =
     map (\<lambda>c. if c = 0x2013 \<or> c = 0x2014 then 0x2D else if c = 0x2019 then 0x27 else c) p"
  by (simp add: sanitize_page_def replace_def)

lemma sanitize_page_clean:
  "0x2013 \<notin> set (sanitize_page p) \<and> 0x2014 \<notin> set (sanitize_page p) \<and>
   0x2019 \<notin> set (sanitize_page p)"
  by (auto simp: sanitize_page_map)

text \<open>
  C10. The sanitising loop does what the claim says of it: afterwards no page holds
  U+2013, U+2014 or U+2019, each of them having become a hyphen, a hyphen and an
  apostrophe, and nothing else has changed; a page whose only code points above 255 are
  these three is rendered. But a page that holds any other code point above 255, here
  the left double quotation mark U+201C, makes \<^verbatim>\<open>create_pdf\<close> raise: the library
  encodes the page strictly inside \<^verbatim>\<open>pdf.output\<close>, before the encoding with
  \<^verbatim>\<open>errors="replace"\<close> of the source is reached.
\<close>

theorem create_pdf_raises_on_other_code_points:
  "0x2013 \<notin> set (sanitize_page p) \<and> 0x2014 \<notin> set (sanitize_page p) \<and>
   0x2019 \<notin> set (sanitize_page p) \<and>
   sanitize_pages pages key =
     map_option
       (map (\<lambda>c. if c = 0x2013 \<or> c = 0x2014 then 0x2D else if c = 0x2019 then 0x27 else c))
       (pages key) \<and>
   sanitize_pages [1 \<mapsto> [0x2013, 0x41, 0x2014, 0x2019]] 1 = Some [0x2D, 0x41, 0x2D, 0x27] \<and>
   create_pdf [1 \<mapsto> [0x2013, 0x41, 0x2014, 0x2019]] (fpdf_output 1 document) =
     Inr (encode_latin1_replace
           (document (sanitize_pages [1 \<mapsto> [0x2013, 0x41, 0x2014, 0x2019]]))) \<and>
   sanitize_pages [1 \<mapsto> [0x41, 0x201C]] 1 = Some [0x41, 0x201C] \<and>
   create_pdf [1 \<mapsto> [0x41, 0x201C]] (fpdf_output 1 document) = Inl ''UnicodeEncodeError''"
proof -
  have pages: "sanitize_pages pages key =
     map_option
       (map (\<lambda>c. if c = 0x2013 \<or> c = 0x2014 then 0x2D else if c = 0x2019 then 0x27 else c))
       (pages key)"
    by (cases "pages key") (simp_all add: sanitize_pages_def sanitize_page_map)
  have good: "sanitize_pages [1 \<mapsto> [0x2013, 0x41, 0x2014, 0x2019]] 1 = Some [0x2D, 0x41, 0x2D, 0x27]"
    by (simp add: sanitize_pages_def sanitize_page_map)
  have bad: "sanitize_pages [1 \<mapsto> [0x41, 0x201C]] 1 = Some [0x41, 0x201C]"
    by (simp add: sanitize_pages_def sanitize_page_map)
  have one: "[1 ..< Suc 1] = [1::nat]"
    by simp
  have passes: "list_all
      (\<lambda>n. case sanitize_pages [1 \<mapsto> [0x2013, 0x41, 0x2014, 0x2019]] n of
             Some p \<Rightarrow> strict_latin1 p | None \<Rightarrow> True) [1 ..< Suc 1]"
    by (simp only: one list.pred_inject good option.case) (simp add: strict_latin1_def)
  have rendered: "create_pdf [1 \<mapsto> [0x2013, 0x41, 0x2014, 0x2019]] (fpdf_output 1 document) =
     Inr (encode_latin1_replace
           (document (sanitize_pages [1 \<mapsto> [0x2013, 0x41, 0x2014, 0x2019]])))"
    by (simp only: create_pdf_def fpdf_output_def passes if_True sum.case)
  have fails: "\<not> list_all
      (\<lambda>n. case sanitize_pages [1 \<mapsto> [0x41, 0x201C]] n of
             Some p \<Rightarrow> strict_latin1 p | None \<Rightarrow> True) [1 ..< Suc 1]"
    by (simp only: one list.pred_inject bad option.case) (simp add: strict_latin1_def)
  have raised: "create_pdf [1 \<mapsto> [0x41, 0x201C]] (fpdf_output 1 document) =
     Inl ''UnicodeEncodeError''"
    by (simp only: create_pdf_def fpdf_output_def fails if_False sum.case)
  from sanitize_page_clean [of p] pages good bad rendered raised show ?thesis
    by simp
qed

end
